theory Spec2Isabelle
  imports Complex_Main
begin

section \<open>Arrays and errors\<close>

text \<open>
  A numpy array of shape (nnodes, 3) is a list of rows, each row a triple. Floating-point
  numbers are read as real numbers throughout: rounding, signed zeros and NaN payloads are
  outside this development.
\<close>

type_synonym vec3 = "real \<times> real \<times> real"
type_synonym ndarray = "vec3 list"

datatype error = ValueError | IndexError | UnboundLocalError | AttributeError

definition vx :: "vec3 \<Rightarrow> real" where
  "vx v = fst v"

definition vy :: "vec3 \<Rightarrow> real" where
  "vy v = fst (snd v)"

definition vz :: "vec3 \<Rightarrow> real" where
  "vz v = snd (snd v)"

definition zeros :: "nat \<Rightarrow> ndarray" where
  "zeros n = replicate n (0, 0, 0)"

text \<open>
  \<open>a + b\<close> on two arrays of shapes (n, 3) and (m, 3): element-wise when \<open>n = m\<close>, the
  single row broadcast when one of them has one row, ValueError otherwise.
\<close>

definition add3 :: "vec3 \<Rightarrow> vec3 \<Rightarrow> vec3" where
  "add3 a b = (vx a + vx b, vy a + vy b, vz a + vz b)"

definition np_add :: "ndarray \<Rightarrow> ndarray \<Rightarrow> error + ndarray" where
  "np_add a b =
     (if length a = length b then Inr (map2 add3 a b)
      else if length b = 1 then Inr (map (\<lambda>r. add3 r (hd b)) a)
      else if length a = 1 then Inr (map (\<lambda>r. add3 (hd a) r) b)
      else Inl ValueError)"

text \<open>A scalar times an array, on either side: \<open>s * f\<close> and \<open>f * s\<close>.\<close>

definition scalar_mul :: "real \<Rightarrow> ndarray \<Rightarrow> ndarray" where
  "scalar_mul s f = map (\<lambda>r. (s * vx r, s * vy r, s * vz r)) f"

definition mul_scalar :: "ndarray \<Rightarrow> real \<Rightarrow> ndarray" where
  "mul_scalar f s = map (\<lambda>r. (vx r * s, vy r * s, vz r * s)) f"

section \<open>The Euler integrator (integrators.py, class Euler)\<close>

record Euler =
  dt :: real
  dampening :: real

text \<open>\<open>__init__(self, dt, dampening=1.0)\<close>: the optional argument is \<open>None\<close> when omitted.\<close>

definition Euler_init :: "real \<Rightarrow> real option \<Rightarrow> Euler" where
  "Euler_init dt0 dampening0 =
     \<lparr>dt = dt0, dampening = (case dampening0 of None \<Rightarrow> 1 | Some d \<Rightarrow> d)\<rparr>"

text \<open>\<open>return u + self.dt * f * self.dampening\<close>, that is \<open>u + ((dt * f) * dampening)\<close>.\<close>

definition Euler_call :: "Euler \<Rightarrow> ndarray \<Rightarrow> ndarray \<Rightarrow> error + ndarray" where
  "Euler_call self u f = np_add u (mul_scalar (scalar_mul (dt self) f) (dampening self))"

section \<open>The regression driver (test/test_regression.py)\<close>

text \<open>
  The fixture \<open>simple_square\<close> selects the boundary columns from the node coordinates:
  \<open>lhs = indices[coords[:, 0] < 1.5 * horizon]\<close> and
  \<open>rhs = indices[coords[:, 0] > 1.0 - 1.5 * horizon]\<close>, with \<open>indices = arange(nnodes)\<close>.
  The boolean mask has one entry per row of \<open>coords\<close>, so \<open>nnodes\<close> is the number of rows.
\<close>

definition simple_square_lhs :: "real \<Rightarrow> ndarray \<Rightarrow> nat list" where
  "simple_square_lhs horizon coords =
     filter (\<lambda>i. vx (coords ! i) < 1.5 * horizon) [0..<length coords]"

definition simple_square_rhs :: "real \<Rightarrow> ndarray \<Rightarrow> nat list" where
  "simple_square_rhs horizon coords =
     filter (\<lambda>i. vx (coords ! i) > 1.0 - 1.5 * horizon) [0..<length coords]"

text \<open>
  \<open>u[idx, 1:3] = np.zeros((len(idx), 2))\<close>: the lateral components of the rows \<open>idx\<close>.
  An index past the last row raises IndexError.
\<close>

definition set_lateral_zero :: "nat list \<Rightarrow> ndarray \<Rightarrow> error + ndarray" where
  "set_lateral_zero idx u =
     (if list_all (\<lambda>i. i < length u) idx
      then Inr (fold (\<lambda>i a. a[i := (vx (a ! i), 0, 0)]) idx u)
      else Inl IndexError)"

text \<open>
  \<open>u[idx, 0] = c * np.ones(k)\<close>: \<open>k\<close> values are assigned to \<open>len(idx)\<close> places, which numpy
  accepts when \<open>k = len(idx)\<close> or \<open>k = 1\<close> and rejects with ValueError otherwise; an index
  past the last row raises IndexError.
\<close>

definition set_x :: "nat list \<Rightarrow> real \<Rightarrow> nat \<Rightarrow> ndarray \<Rightarrow> error + ndarray" where
  "set_x idx c k u =
     (if \<not> (k = length idx \<or> k = 1) then Inl ValueError
      else if list_all (\<lambda>i. i < length u) idx
      then Inr (fold (\<lambda>i a. a[i := (c, vy (a ! i), vz (a ! i))]) idx u)
      else Inl IndexError)"

text \<open>
  The class Model is not part of the sources at hand. Its three calls of one loop round,
  \<open>model.bond_stretch(u)\<close>, \<open>model.damage()\<close> and \<open>model.bond_force()\<close>, are a parameter
  \<open>physics\<close>: from the model state and the displacements to the new model state, the
  damage vector and the force array.
\<close>

type_synonym 'm physics = "'m \<Rightarrow> ndarray \<Rightarrow> 'm \<times> real list \<times> ndarray"

definition load_rate :: real where
  "load_rate = 0.00001"

text \<open>One round of the loop \<open>for t in range(1, 11)\<close> of the fixture \<open>regression\<close>.\<close>

definition regression_step ::
  "'m physics \<Rightarrow> nat list \<Rightarrow> nat list \<Rightarrow> Euler \<Rightarrow> nat \<Rightarrow> 'm \<times> ndarray \<times> real list
     \<Rightarrow> error + ('m \<times> ndarray \<times> real list)" where
  "regression_step physics lhs rhs integrator t s =
     (case s of (model, u, damage0) \<Rightarrow>
        (case physics model u of (model', damage, f) \<Rightarrow>
           (case Euler_call integrator u f of
              Inl e \<Rightarrow> Inl e
            | Inr u1 \<Rightarrow>
           (case set_lateral_zero lhs u1 of
              Inl e \<Rightarrow> Inl e
            | Inr u2 \<Rightarrow>
           (case set_lateral_zero rhs u2 of
              Inl e \<Rightarrow> Inl e
            | Inr u3 \<Rightarrow>
           (case set_x lhs (- 0.5 * real t * load_rate) (length rhs) u3 of
              Inl e \<Rightarrow> Inl e
            | Inr u4 \<Rightarrow>
           (case set_x rhs (0.5 * real t * load_rate) (length rhs) u4 of
              Inl e \<Rightarrow> Inl e
            | Inr u5 \<Rightarrow> Inr (model', u5, damage))))))))"

fun regression_loop ::
  "'m physics \<Rightarrow> nat list \<Rightarrow> nat list \<Rightarrow> Euler \<Rightarrow> nat list \<Rightarrow> 'm \<times> ndarray \<times> real list
     \<Rightarrow> error + ('m \<times> ndarray \<times> real list)" where
  "regression_loop physics lhs rhs integrator [] s = Inr s"
| "regression_loop physics lhs rhs integrator (t # ts) s =
     (case regression_step physics lhs rhs integrator t s of
        Inl e \<Rightarrow> Inl e
      | Inr s' \<Rightarrow> regression_loop physics lhs rhs integrator ts s')"

text \<open>
  The fixture: horizon 0.1, \<open>Euler(dt=1e-3)\<close>, zero initial displacements, ten rounds.
  \<open>damage\<close> is unbound before the first round; the loop always runs, so the initial value
  given here is never returned.
\<close>

definition regression ::
  "'m physics \<Rightarrow> 'm \<Rightarrow> ndarray \<Rightarrow> error + ('m \<times> ndarray \<times> real list)" where
  "regression physics model coords =
     regression_loop physics (simple_square_lhs 0.1 coords) (simple_square_rhs 0.1 coords)
       (Euler_init 0.001 None) [1..<11] (model, zeros (length coords), [])"

section \<open>Domain decomposition (parallelFunctions.py)\<close>

text \<open>
  The quotients of \<open>decomposeDomain\<close> are numpy floating-point divisions, which do not
  raise on a zero divisor but yield an infinity or NaN. The values that can arise:
\<close>

datatype npfloat = Fin real | PInf | NInf | NaN

fun np_div :: "real \<Rightarrow> npfloat \<Rightarrow> npfloat" where
  "np_div a (Fin b) =
     (if b \<noteq> 0 then Fin (a / b) else if a > 0 then PInf else if a < 0 then NInf else NaN)"
| "np_div a PInf = Fin 0"
| "np_div a NInf = Fin 0"
| "np_div a NaN = NaN"

fun np_plus :: "npfloat \<Rightarrow> real \<Rightarrow> npfloat" where
  "np_plus (Fin a) c = Fin (a + c)"
| "np_plus x c = x"

fun np_floor :: "npfloat \<Rightarrow> npfloat" where
  "np_floor (Fin a) = Fin (of_int \<lfloor>a\<rfloor>)"
| "np_floor x = x"

text \<open>\<open>np.amax\<close> of a one-dimensional array: ValueError on a zero-size array.\<close>

definition np_amax :: "real list \<Rightarrow> error + real" where
  "np_amax xs = (case xs of [] \<Rightarrow> Inl ValueError | y # ys \<Rightarrow> Inr (fold max ys y))"

text \<open>
  \<open>nearestNeighbour\<close>: \<open>[1]\<close>, then \<open>[i-1, i+1]\<close> for \<open>i\<close> in \<open>range(1, M-1)\<close>, then \<open>[M-2]\<close>.
\<close>

definition nearest_neighbours :: "int \<Rightarrow> int list list" where
  "nearest_neighbours M = [[1]] @ map (\<lambda>i. [i - 1, i + 1]) [1..M - 2] @ [[M - 2]]"

text \<open>
  \<open>part\<close> is bound to \<open>[]\<close> before the test of \<open>partitionType\<close>; \<open>nearestNeighbour\<close> is bound
  inside the branch only, so the \<open>return\<close> raises UnboundLocalError on every other value.
  \<open>connectivity\<close> is not read.
\<close>

definition decomposeDomain ::
  "ndarray \<Rightarrow> 'c \<Rightarrow> int \<Rightarrow> int \<Rightarrow> error + (npfloat list \<times> int list list)" where
  "decomposeDomain coords connectivity M partitionType =
     (if partitionType = 1 then
        (case np_amax (map vx coords) of
           Inl e \<Rightarrow> Inl e
         | Inr maxX \<Rightarrow>
             (let dX = np_plus (np_div maxX (Fin (of_int M))) (1 / 1000000);
                  part = map (\<lambda>r. np_floor (np_div (vx r) dX)) coords
              in Inr (part, nearest_neighbours M)))
      else Inl UnboundLocalError)"

section \<open>OpenCL integrators (integrators.py): state, program and shared kernels\<close>

text \<open>
  The class Model is not part of the sources at hand; these are the attributes of
  \<open>model\<close> that the integrators read and the claims depend on. \<open>degrees_freedom\<close> and
  \<open>max_horizon_length\<close> only size the kernels' work groups and are left out; every node
  array has three components per node.
\<close>

record model =
  nnodes :: nat
  num_force_bc_nodes :: int
  horizons :: "int list list"
  coords :: ndarray
  bond_critical_stretch :: "nat \<Rightarrow> nat \<Rightarrow> real"
  tip_types :: "int list"
  model_dt :: real

text \<open>
  The attributes of an integrator object: host arrays \<open>h_\<close>, device buffers \<open>d_\<close> and the
  scalars. One record holds the attributes of all the OpenCL classes; a class reads and
  writes the ones its own methods name. A device buffer is a copy: a kernel that writes
  \<open>d_horizons\<close> leaves \<open>h_horizons\<close> as it is, and no method copies \<open>d_horizons\<close> back.
  \<open>d_horizons\<close> has one row per node and one entry per bond slot.
\<close>

record cl_state =
  h_horizons :: "int list list"
  h_tip_types :: "int list"
  h_damage :: "real list"
  h_errorn :: ndarray
  h_pn :: "ndarray list"
  h_un :: ndarray
  h_udn :: ndarray
  h_udn1 :: ndarray
  h_uddn :: ndarray
  h_un2 :: ndarray
  h_un5 :: ndarray
  h_k1dn :: ndarray
  h_dt :: real
  h_force_load_scale :: real
  error_size_max :: real
  error_size_min :: real
  d_coords :: ndarray
  d_bond_critical_stretch :: "nat \<Rightarrow> nat \<Rightarrow> real"
  d_horizons :: "int list list"
  d_damage :: "real list"
  d_errorn :: ndarray
  d_forces :: ndarray
  d_pn :: "ndarray list"
  d_un :: ndarray
  d_udn :: ndarray
  d_udn1 :: ndarray
  d_uddn :: ndarray
  d_uddn1 :: ndarray
  d_un1 :: ndarray
  d_un2 :: ndarray
  d_un3 :: ndarray
  d_un2_1 :: ndarray
  d_un5 :: ndarray
  d_un_temp :: ndarray
  d_k1dn :: ndarray
  d_k2dn :: ndarray
  d_k3dn :: ndarray
  d_k4dn :: ndarray
  d_k5dn :: ndarray
  d_k6dn :: ndarray
  d_k7dn :: ndarray

text \<open>
  The kernel sources (kernels/*.cl) are not part of the sources at hand. The arithmetic of
  a kernel is a parameter: \<open>kernel_of P name\<close> takes the adjacency buffer (or \<open>[]\<close> when
  the kernel is not handed it), the read-write node buffers of the call in the order of
  the call, and its scalars, and gives the new content of the buffer the kernel writes.
  The read-only buffers (volumes, stiffnesses, boundary-condition tables) are fixed when
  the program is built and are part of \<open>P\<close>. \<open>damage_of P\<close> is CalculateDamage or
  ReduceDamage, the damage vector computed from the adjacency buffer.
\<close>

type_synonym kernel = "int list list \<Rightarrow> ndarray list \<Rightarrow> real list \<Rightarrow> ndarray"

record program =
  kernel_of :: "string \<Rightarrow> kernel"
  damage_of :: "int list list \<Rightarrow> real list"

definition sub3 :: "vec3 \<Rightarrow> vec3 \<Rightarrow> vec3" where
  "sub3 a b = (vx a - vx b, vy a - vy b, vz a - vz b)"

definition norm3 :: "vec3 \<Rightarrow> real" where
  "norm3 v = sqrt (vx v * vx v + vy v * vy v + vz v * vz v)"

text \<open>
  Modelled from the spec: the kernel source that computes the bond stretch is missing.
  The stretch of the bond from node \<open>i\<close> to node \<open>j\<close> is
  \<open>(|deformed| - |reference|) / |reference|\<close>, the reference bond vector being the
  difference of the coordinates and the deformed one the reference plus the difference of
  the displacements.
\<close>

definition bond_stretch :: "ndarray \<Rightarrow> ndarray \<Rightarrow> nat \<Rightarrow> nat \<Rightarrow> real" where
  "bond_stretch xs un i j =
     (let reference = sub3 (xs ! j) (xs ! i);
          deformed = add3 reference (sub3 (un ! j) (un ! i))
      in (norm3 deformed - norm3 reference) / norm3 reference)"

text \<open>
  Modelled from the spec: the failure rule of the missing kernels. The bond in slot \<open>k\<close>
  of node \<open>i\<close>, whose entry \<open>j\<close> of the adjacency buffer is the neighbour's index, fails
  when \<open>|s| > critical_stretch\<close>. The is-active flag of a bond is its entry itself, the
  host code handing the kernels no other array for it: the entry \<open>-1\<close> is a slot that is
  not active (padding, or a broken bond). An entry outside the node arrays, or a bond of
  length zero, has no stretch and is left alone.
\<close>

definition bond_fails ::
  "ndarray \<Rightarrow> ndarray \<Rightarrow> (nat \<Rightarrow> nat \<Rightarrow> real) \<Rightarrow> nat \<Rightarrow> nat \<Rightarrow> int \<Rightarrow> bool" where
  "bond_fails un xs crit i k j =
     (0 \<le> j \<and> i < length xs \<and> nat j < length xs \<and> i < length un \<and> nat j < length un \<and>
      norm3 (sub3 (xs ! nat j) (xs ! i)) \<noteq> 0 \<and>
      \<bar>bond_stretch xs un i (nat j)\<bar> > crit i k)"

text \<open>
  Modelled from the spec: the kernel CheckBonds,
  \<open>check_bonds(d_horizons, d_un, d_coords, d_bond_critical_stretch)\<close>, marks every bond
  that fails at the displacements \<open>un\<close> as broken and leaves every other entry as it is.
\<close>

definition CheckBonds ::
  "int list list \<Rightarrow> ndarray \<Rightarrow> ndarray \<Rightarrow> (nat \<Rightarrow> nat \<Rightarrow> real) \<Rightarrow> int list list" where
  "CheckBonds hs un xs crit =
     map (\<lambda>(i, row). map (\<lambda>(k, j). if bond_fails un xs crit i k j then - 1 else j)
                        (zip [0..<length row] row))
         (zip [0..<length hs] hs)"

text \<open>
  Modelled from the spec: the kernel CalcBondForce of the optimised fixed-step programs
  (EulerCromerOptimised, EulerOpenCLOptimised, RK4Optimised, EulerOpenCLOptimisedLumped
  and EulerStochastic),
  \<open>calc_bond_force(d_forces, un, d_vols, d_horizons, d_coords, d_bond_stiffness,
  d_bond_critical_stretch)\<close>. It is the Force Kernel of the spec: it writes the per-bond
  forces and applies the failure rule at the displacements it is handed. These classes
  never dispatch CheckBonds; EulerOpenCLOptimised and RK4Optimised say why: "check bonds
  is done in CalcBondForce". The CalcBondForce of the programs that are not optimised is
  not handed the critical stretches and writes the node forces only.
\<close>

definition CalcBondForce_optimised ::
  "program \<Rightarrow> (cl_state \<Rightarrow> ndarray) \<Rightarrow> cl_state \<Rightarrow> cl_state" where
  "CalcBondForce_optimised P un st =
     st\<lparr>d_forces := kernel_of P ''CalcBondForce'' (d_horizons st) [d_forces st, un st] [],
        d_horizons := CheckBonds (d_horizons st) (un st) (d_coords st) (d_bond_critical_stretch st)\<rparr>"

text \<open>
  Modelled from the spec: the kernel CalcBondForce of the programs of DormandPrinceOptimised
  and HeunEulerOptimised, dispatched with the same argument list. These two classes bind
  the kernel CheckBonds of their program and dispatch it themselves, in the branch of an
  accepted step only, and the spec has the adaptive schemes apply the failure check on
  accepted steps only: their force evaluation writes the per-bond forces and leaves the
  adjacency buffer as it is.
\<close>

definition CalcBondForce_adaptive ::
  "program \<Rightarrow> (cl_state \<Rightarrow> ndarray) \<Rightarrow> cl_state \<Rightarrow> cl_state" where
  "CalcBondForce_adaptive P un st =
     st\<lparr>d_forces := kernel_of P ''CalcBondForce'' (d_horizons st) [d_forces st, un st] []\<rparr>"

text \<open>
  The part of \<open>__init__\<close> that every OpenCL class shares, as far as the claims read it:
  the adjacency and the tip flags are taken from the model, the device adjacency is a copy
  of the host one, the load scale starts at 0. The arrays made by \<open>np.empty\<close> and the
  buffers made without a host pointer keep whatever the memory held: \<open>mem\<close>.
\<close>

definition init_buffers :: "model \<Rightarrow> cl_state \<Rightarrow> cl_state" where
  "init_buffers m mem =
     mem\<lparr>h_horizons := horizons m,
         h_tip_types := tip_types m,
         h_force_load_scale := 0,
         d_coords := coords m,
         d_bond_critical_stretch := bond_critical_stretch m,
         d_horizons := horizons m\<rparr>"

text \<open>
  The adaptive classes also keep the error bounds and the time step:
  \<open>__init__(self, model, error_size_max, error_size_min)\<close> with the defaults 1e-7 and 1e-10
  (DormandPrince, DormandPrinceOptimised) or 1e-2 and 1e-10 (HeunEuler, HeunEulerOptimised).
\<close>

definition adaptive_init :: "model \<Rightarrow> real \<Rightarrow> real \<Rightarrow> cl_state \<Rightarrow> cl_state" where
  "adaptive_init m emax emin mem =
     (init_buffers m mem)\<lparr>error_size_max := emax, error_size_min := emin, h_dt := model_dt m\<rparr>"

definition DormandPrince_init :: "model \<Rightarrow> real option \<Rightarrow> real option \<Rightarrow> cl_state \<Rightarrow> cl_state" where
  "DormandPrince_init m emax emin mem =
     adaptive_init m (case emax of None \<Rightarrow> 1 / 10000000 | Some x \<Rightarrow> x)
       (case emin of None \<Rightarrow> 1 / 10000000000 | Some x \<Rightarrow> x) mem"

definition HeunEuler_init :: "model \<Rightarrow> real option \<Rightarrow> real option \<Rightarrow> cl_state \<Rightarrow> cl_state" where
  "HeunEuler_init m emax emin mem =
     adaptive_init m (case emax of None \<Rightarrow> 1 / 100 | Some x \<Rightarrow> x)
       (case emin of None \<Rightarrow> 1 / 10000000000 | Some x \<Rightarrow> x) mem"

subsection \<open>__call__\<close>

text \<open>
  The \<open>__call__\<close> of every OpenCL class takes no argument but \<open>self\<close> and its body is its
  docstring alone: it changes nothing and returns \<open>None\<close>. The thirteen methods are the same
  text; \<open>opencl_call\<close> is each of them.
\<close>

definition opencl_call :: "cl_state \<Rightarrow> cl_state \<times> ndarray option" where
  "opencl_call self = (self, None)"

subsection \<open>incrementLoad\<close>

text \<open>
  \<open>incrementLoad(self, model, load_scale)\<close> is the same text in the twelve classes that
  define it (every OpenCL class but EulerStochastic).
\<close>

definition incrementLoad :: "model \<Rightarrow> real \<Rightarrow> cl_state \<Rightarrow> cl_state" where
  "incrementLoad m load_scale self =
     (if num_force_bc_nodes m \<noteq> 0 then self\<lparr>h_force_load_scale := load_scale\<rparr> else self)"

subsection \<open>write: the tip diagnostics\<close>

text \<open>
  The loop of \<open>write\<close>, the same text in the eleven classes that return the triple:
  \<open>for i in range(model.nnodes): if self.h_tip_types[i] == 1: tmp += 1;
  tip_displacement += disp[i][2]; tip_shear_force += force[i][2]\<close>.
  An index past the end of an array raises IndexError.
\<close>

fun tip_loop ::
  "int list \<Rightarrow> ndarray \<Rightarrow> ndarray \<Rightarrow> nat list \<Rightarrow> nat \<times> real \<times> real \<Rightarrow> error + (nat \<times> real \<times> real)" where
  "tip_loop tts disp force [] acc = Inr acc"
| "tip_loop tts disp force (i # is) (tmp, tip_displacement, tip_shear_force) =
     (if i \<ge> length tts then Inl IndexError
      else if tts ! i = 1 then
        (if i \<ge> length disp \<or> i \<ge> length force then Inl IndexError
         else tip_loop tts disp force is
                (tmp + 1, tip_displacement + vz (disp ! i), tip_shear_force + vz (force ! i)))
      else tip_loop tts disp force is (tmp, tip_displacement, tip_shear_force))"

text \<open>
  After the loop: \<open>if tmp != 0: tip_displacement /= tmp else: tip_displacement = None\<close>;
  \<open>tip_shear_force\<close> is returned as the loop left it.
\<close>

definition tip_diagnostics ::
  "nat \<Rightarrow> int list \<Rightarrow> ndarray \<Rightarrow> ndarray \<Rightarrow> error + (real option \<times> real)" where
  "tip_diagnostics n tts disp force =
     (case tip_loop tts disp force [0..<n] (0, 0, 0) of
        Inl e \<Rightarrow> Inl e
      | Inr (tmp, tip_displacement, tip_shear_force) \<Rightarrow>
          Inr (if tmp \<noteq> 0 then Some (tip_displacement / real tmp) else None, tip_shear_force))"

subsection \<open>runtime of the fixed-step classes\<close>

text \<open>
  Each \<open>runtime\<close> is the sequence of its kernel calls. A call
  \<open>self.cl_kernel_x(self.queue, global_size, local_size, buffers..., scalars...)\<close>
  becomes the update of the buffer the kernel writes. CheckBonds and the CalcBondForce of
  the optimised fixed-step programs are the two kernels that write \<open>d_horizons\<close>.
\<close>

definition EulerCromer_runtime :: "program \<Rightarrow> cl_state \<Rightarrow> cl_state" where
  "EulerCromer_runtime P self =
     (let s1 = self\<lparr>d_un := kernel_of P ''UpdateDisplacement'' [] [d_udn self, d_un self] []\<rparr>;
          s2 = s1\<lparr>d_uddn := kernel_of P ''CalcBondForce'' (d_horizons s1)
                     [d_uddn s1, d_udn s1, d_un s1] [h_force_load_scale s1]\<rparr>;
          s3 = s2\<lparr>d_udn := kernel_of P ''UpdateVelocity'' [] [d_udn s2, d_uddn s2] []\<rparr>
      in s3\<lparr>d_horizons := CheckBonds (d_horizons s3) (d_un s3) (d_coords s3)
                   (d_bond_critical_stretch s3)\<rparr>)"

definition EulerCromerOptimised_runtime :: "program \<Rightarrow> cl_state \<Rightarrow> cl_state" where
  "EulerCromerOptimised_runtime P self =
     (let s1 = self\<lparr>d_un := kernel_of P ''UpdateDisplacement'' [] [d_udn self, d_un self] []\<rparr>;
          s2 = CalcBondForce_optimised P d_un s1;
          s3 = s2\<lparr>d_uddn := kernel_of P ''ReduceForce'' []
                     [d_forces s2, d_uddn s2, d_udn s2] [h_force_load_scale s2]\<rparr>
      in s3\<lparr>d_udn := kernel_of P ''UpdateVelocity'' [] [d_udn s3, d_uddn s3] []\<rparr>)"

definition EulerOpenCL_runtime :: "program \<Rightarrow> cl_state \<Rightarrow> cl_state" where
  "EulerOpenCL_runtime P self =
     (let s1 = self\<lparr>d_un := kernel_of P ''TimeMarching1'' [] [d_udn1 self, d_un self] []\<rparr>;
          s2 = s1\<lparr>d_udn1 := kernel_of P ''TimeMarching2'' (d_horizons s1)
                     [d_udn1 s1, d_un s1] [h_force_load_scale s1]\<rparr>
      in s2\<lparr>d_horizons := CheckBonds (d_horizons s2) (d_un s2) (d_coords s2)
                   (d_bond_critical_stretch s2)\<rparr>)"

definition EulerOpenCLOptimised_runtime :: "program \<Rightarrow> cl_state \<Rightarrow> cl_state" where
  "EulerOpenCLOptimised_runtime P self =
     (let s1 = self\<lparr>d_un := kernel_of P ''UpdateDisplacement'' [] [d_udn self, d_un self] []\<rparr>;
          s2 = CalcBondForce_optimised P d_un s1
      in s2\<lparr>d_udn := kernel_of P ''ReduceForce'' [] [d_forces s2, d_udn s2]
                   [h_force_load_scale s2]\<rparr>)"

definition VelocityVerletOpenCL_runtime :: "program \<Rightarrow> cl_state \<Rightarrow> cl_state" where
  "VelocityVerletOpenCL_runtime P self =
     (let s1 = self\<lparr>d_un := kernel_of P ''TimeMarching1'' []
                       [d_un self, d_udn self, d_uddn self] []\<rparr>;
          s2 = s1\<lparr>d_uddn1 := kernel_of P ''TimeMarching2'' (d_horizons s1)
                     [d_uddn1 s1, d_un s1, d_udn s1] [h_force_load_scale s1]\<rparr>;
          s3 = s2\<lparr>d_udn := kernel_of P ''TimeMarching3'' []
                     [d_udn s2, d_uddn s2, d_uddn1 s2] []\<rparr>
      in s3\<lparr>d_horizons := CheckBonds (d_horizons s3) (d_un s3) (d_coords s3)
                   (d_bond_critical_stretch s3)\<rparr>)"

definition RK4_runtime :: "program \<Rightarrow> cl_state \<Rightarrow> cl_state" where
  "RK4_runtime P self =
     (let s1 = self\<lparr>d_k1dn := kernel_of P ''CalcBondForce'' (d_horizons self)
                       [d_k1dn self, d_un self] [h_force_load_scale self]\<rparr>;
          s2 = s1\<lparr>d_un1 := kernel_of P ''PartialUpdateDisplacement'' []
                     [d_k1dn s1, d_un s1, d_un1 s1] []\<rparr>;
          s3 = s2\<lparr>d_k2dn := kernel_of P ''CalcBondForce'' (d_horizons s2)
                     [d_k2dn s2, d_un1 s2] [h_force_load_scale s2]\<rparr>;
          s4 = s3\<lparr>d_un2 := kernel_of P ''PartialUpdateDisplacement'' []
                     [d_k2dn s3, d_un s3, d_un2 s3] []\<rparr>;
          s5 = s4\<lparr>d_k3dn := kernel_of P ''CalcBondForce'' (d_horizons s4)
                     [d_k3dn s4, d_un2 s4] [h_force_load_scale s4]\<rparr>;
          s6 = s5\<lparr>d_un3 := kernel_of P ''PartialUpdateDisplacement2'' []
                     [d_k3dn s5, d_un s5, d_un3 s5] []\<rparr>;
          s7 = s6\<lparr>d_k4dn := kernel_of P ''CalcBondForce'' (d_horizons s6)
                     [d_k4dn s6, d_un3 s6] [h_force_load_scale s6]\<rparr>;
          s8 = s7\<lparr>d_un := kernel_of P ''UpdateDisplacement'' []
                     [d_k1dn s7, d_k2dn s7, d_k3dn s7, d_k4dn s7, d_un s7] []\<rparr>
      in s8\<lparr>d_horizons := CheckBonds (d_horizons s8) (d_un s8) (d_coords s8)
                   (d_bond_critical_stretch s8)\<rparr>)"

definition RK4Optimised_runtime :: "program \<Rightarrow> cl_state \<Rightarrow> cl_state" where
  "RK4Optimised_runtime P self =
     (let s1 = CalcBondForce_optimised P d_un self;
          s2 = s1\<lparr>d_k1dn := kernel_of P ''ReduceForce'' [] [d_forces s1, d_k1dn s1]
                     [h_force_load_scale s1]\<rparr>;
          s3 = s2\<lparr>d_un1 := kernel_of P ''PartialUpdateDisplacement'' []
                     [d_k1dn s2, d_un s2, d_un1 s2] []\<rparr>;
          s4 = CalcBondForce_optimised P d_un1 s3;
          s5 = s4\<lparr>d_k2dn := kernel_of P ''ReduceForce'' [] [d_forces s4, d_k2dn s4]
                     [h_force_load_scale s4]\<rparr>;
          s6 = s5\<lparr>d_un2 := kernel_of P ''PartialUpdateDisplacement'' []
                     [d_k2dn s5, d_un s5, d_un2 s5] []\<rparr>;
          s7 = CalcBondForce_optimised P d_un2 s6;
          s8 = s7\<lparr>d_k3dn := kernel_of P ''ReduceForce'' [] [d_forces s7, d_k3dn s7]
                     [h_force_load_scale s7]\<rparr>;
          s9 = s8\<lparr>d_un3 := kernel_of P ''PartialUpdateDisplacement2'' []
                     [d_k3dn s8, d_un s8, d_un3 s8] []\<rparr>;
          s10 = CalcBondForce_optimised P d_un3 s9;
          s11 = s10\<lparr>d_k4dn := kernel_of P ''ReduceForce'' [] [d_forces s10, d_k4dn s10]
                     [h_force_load_scale s10]\<rparr>
      in s11\<lparr>d_un := kernel_of P ''UpdateDisplacement'' []
                    [d_k1dn s11, d_k2dn s11, d_k3dn s11, d_k4dn s11, d_un s11] []\<rparr>)"

text \<open>
  EulerOpenCLOptimisedLumped: ReduceForce is handed \<open>d_udn\<close> and \<open>d_un\<close> and writes both,
  the displacement update being folded into the reduction; \<open>''ReduceForce.un''\<close> is its
  result for \<open>d_un\<close>.
\<close>

definition EulerOpenCLOptimisedLumped_runtime :: "program \<Rightarrow> cl_state \<Rightarrow> cl_state" where
  "EulerOpenCLOptimisedLumped_runtime P self =
     (let s1 = CalcBondForce_optimised P d_un self
      in s1\<lparr>d_udn := kernel_of P ''ReduceForce'' [] [d_forces s1, d_udn s1, d_un s1]
                   [h_force_load_scale s1],
            d_un := kernel_of P ''ReduceForce.un'' [] [d_forces s1, d_udn s1, d_un s1]
                   [h_force_load_scale s1]\<rparr>)"

subsection \<open>EulerStochastic: runtime and reset\<close>

text \<open>
  \<open>runtime(self, model, step)\<close>: the noise buffer and the step index go to
  UpdateDisplacement. \<open>__init__\<close> does not assign \<open>d_pn\<close>, \<open>reset\<close> does: on an object that has
  not been reset yet the attribute is missing and the code raises AttributeError at this
  call. The record has the field from the start, so the definition is the \<open>runtime\<close> of an
  object that has been reset at least once.
\<close>

definition EulerStochastic_runtime :: "program \<Rightarrow> nat \<Rightarrow> cl_state \<Rightarrow> cl_state" where
  "EulerStochastic_runtime P step self =
     (let s1 = self\<lparr>d_un := kernel_of P ''UpdateDisplacement'' []
                       ([d_udn self, d_un self] @ d_pn self) [real step]\<rparr>;
          s2 = CalcBondForce_optimised P d_un s1
      in s2\<lparr>d_udn := kernel_of P ''ReduceForce'' [] [d_forces s2, d_udn s2]
                   [h_force_load_scale s2]\<rparr>)"

text \<open>
  \<open>reset(self, model, steps)\<close>: the host displacements, forces and damage are zeroed, a noise
  sample is drawn, and the device buffers are built anew from the host arrays, the
  adjacency buffer \<open>d_horizons\<close> from \<open>h_horizons\<close> among them. The noise generator is not
  part of the sources at hand and draws at random: its sample \<open>pn\<close> is an argument, in the
  place of \<open>steps\<close>, which the generator alone reads.
\<close>

definition EulerStochastic_reset :: "model \<Rightarrow> ndarray list \<Rightarrow> cl_state \<Rightarrow> cl_state" where
  "EulerStochastic_reset m pn self =
     (let s1 = self\<lparr>h_un := zeros (nnodes m)\<rparr>;
          s2 = s1\<lparr>h_udn := zeros (nnodes m)\<rparr>;
          s3 = s2\<lparr>h_damage := replicate (nnodes m) 0\<rparr>;
          s4 = s3\<lparr>h_pn := pn\<rparr>;
          s5 = s4\<lparr>d_pn := h_pn s4\<rparr>;
          s6 = s5\<lparr>d_horizons := h_horizons s5\<rparr>;
          s7 = s6\<lparr>d_un := h_un s6\<rparr>;
          s8 = s7\<lparr>d_udn := h_udn s7\<rparr>
      in s8\<lparr>d_damage := h_damage s8\<rparr>)"

subsection \<open>The adaptive classes\<close>

text \<open>
  \<open>np.mean\<close> of the row norms; the mean of an empty array is NaN (\<open>None\<close>), with which
  every comparison is false.
\<close>

definition np_mean :: "real list \<Rightarrow> real option" where
  "np_mean xs = (if xs = [] then None else Some (sum_list xs / real (length xs)))"

definition mean_error :: "ndarray \<Rightarrow> real option" where
  "mean_error errorn = np_mean (map norm3 errorn)"

text \<open>
  The end of \<open>adapt_time_step\<close>, the same text in the four adaptive classes:
  \<open>error = np.mean(np.linalg.norm(self.h_errorn, axis=1))\<close>, then
  \<open>if error > self.error_size_max: self.h_dt /= 1.1; adapt = 1\<close>,
  \<open>elif error < self.error_size_min: self.h_dt *= 1.1\<close>, and \<open>return adapt\<close>.
\<close>

definition adapt_decision :: "cl_state \<Rightarrow> cl_state \<times> int" where
  "adapt_decision self =
     (case mean_error (h_errorn self) of
        None \<Rightarrow> (self, 0)
      | Some error \<Rightarrow>
          (if error > error_size_max self then (self\<lparr>h_dt := h_dt self / 1.1\<rparr>, 1)
           else if error < error_size_min self then (self\<lparr>h_dt := h_dt self * 1.1\<rparr>, 0)
           else (self, 0)))"

text \<open>\<open>adapt_time_step\<close> of DormandPrince and of DormandPrinceOptimised (the same text).\<close>

definition DormandPrince_adapt_time_step :: "program \<Rightarrow> cl_state \<Rightarrow> cl_state \<times> int" where
  "DormandPrince_adapt_time_step P self =
     (let s1 = self\<lparr>d_errorn := kernel_of P ''CheckError'' []
                       [d_k1dn self, d_k3dn self, d_k4dn self, d_k5dn self, d_k6dn self,
                        d_k7dn self, d_un_temp self, d_un5 self, d_errorn self] [h_dt self]\<rparr>;
          s2 = s1\<lparr>h_errorn := d_errorn s1\<rparr>
      in adapt_decision s2)"

text \<open>
  \<open>adapt_time_step\<close> of HeunEuler and of HeunEulerOptimised (the same text). CheckError is
  handed \<open>d_un2_1\<close>, which no other kernel writes and which the commit reads: it writes
  the second-order displacements there (\<open>''CheckError.un2_1''\<close>) besides the errors.
\<close>

definition HeunEuler_adapt_time_step :: "program \<Rightarrow> cl_state \<Rightarrow> cl_state \<times> int" where
  "HeunEuler_adapt_time_step P self =
     (let s1 = self\<lparr>d_errorn := kernel_of P ''CheckError'' []
                       [d_k1dn self, d_k2dn self, d_un1 self, d_un2 self, d_un2_1 self,
                        d_errorn self] [h_dt self],
                     d_un2_1 := kernel_of P ''CheckError.un2_1'' []
                       [d_k1dn self, d_k2dn self, d_un1 self, d_un2 self, d_un2_1 self,
                        d_errorn self] [h_dt self]\<rparr>;
          s2 = s1\<lparr>h_errorn := d_errorn s1\<rparr>
      in adapt_decision s2)"

text \<open>The seven force evaluations of \<open>DormandPrince.runtime\<close>, up to the call of \<open>adapt_time_step\<close>.\<close>

definition DormandPrince_stages :: "program \<Rightarrow> cl_state \<Rightarrow> cl_state" where
  "DormandPrince_stages P self =
     (let s1 = self\<lparr>d_k1dn := kernel_of P ''CalcBondForce'' (d_horizons self)
                       [d_k1dn self, d_un5 self] [h_force_load_scale self]\<rparr>;
          s2 = s1\<lparr>d_un_temp := kernel_of P ''PartialUpdateDisplacement'' []
                     [d_k1dn s1, d_un5 s1, d_un_temp s1] [h_dt s1]\<rparr>;
          s3 = s2\<lparr>d_k2dn := kernel_of P ''CalcBondForce'' (d_horizons s2)
                     [d_k2dn s2, d_un_temp s2] [h_force_load_scale s2]\<rparr>;
          s4 = s3\<lparr>d_un_temp := kernel_of P ''PartialUpdateDisplacement2'' []
                     [d_k1dn s3, d_k2dn s3, d_un5 s3, d_un_temp s3] [h_dt s3]\<rparr>;
          s5 = s4\<lparr>d_k3dn := kernel_of P ''CalcBondForce'' (d_horizons s4)
                     [d_k3dn s4, d_un_temp s4] [h_force_load_scale s4]\<rparr>;
          s6 = s5\<lparr>d_un_temp := kernel_of P ''PartialUpdateDisplacement3'' []
                     [d_k1dn s5, d_k2dn s5, d_k3dn s5, d_un5 s5, d_un_temp s5] [h_dt s5]\<rparr>;
          s7 = s6\<lparr>d_k4dn := kernel_of P ''CalcBondForce'' (d_horizons s6)
                     [d_k4dn s6, d_un_temp s6] [h_force_load_scale s6]\<rparr>;
          s8 = s7\<lparr>d_un_temp := kernel_of P ''PartialUpdateDisplacement4'' []
                     [d_k1dn s7, d_k2dn s7, d_k3dn s7, d_k4dn s7, d_un5 s7, d_un_temp s7]
                     [h_dt s7]\<rparr>;
          s9 = s8\<lparr>d_k5dn := kernel_of P ''CalcBondForce'' (d_horizons s8)
                     [d_k5dn s8, d_un_temp s8] [h_force_load_scale s8]\<rparr>;
          s10 = s9\<lparr>d_un_temp := kernel_of P ''PartialUpdateDisplacement5'' []
                     [d_k1dn s9, d_k2dn s9, d_k3dn s9, d_k4dn s9, d_k5dn s9, d_un5 s9,
                      d_un_temp s9] [h_dt s9]\<rparr>;
          s11 = s10\<lparr>d_k6dn := kernel_of P ''CalcBondForce'' (d_horizons s10)
                     [d_k6dn s10, d_un_temp s10] [h_force_load_scale s10]\<rparr>;
          s12 = s11\<lparr>d_un_temp := kernel_of P ''PartialUpdateDisplacement6'' []
                     [d_k1dn s11, d_k3dn s11, d_k4dn s11, d_k5dn s11, d_k6dn s11, d_un5 s11,
                      d_un_temp s11] [h_dt s11]\<rparr>
      in s12\<lparr>d_k7dn := kernel_of P ''CalcBondForce'' (d_horizons s12)
                    [d_k7dn s12, d_un_temp s12] [h_force_load_scale s12]\<rparr>)"

text \<open>
  The end of \<open>runtime\<close> of the four adaptive classes: \<open>if self.adapt_time_step(model) == 1:
  pass\<close>, \<open>else:\<close> the full update of the displacements (UpdateDisplacement, handed the
  trial buffer, the committed buffer and \<open>self.h_dt\<close> as \<open>adapt_time_step\<close> left it) and
  CheckBonds on the committed buffer.
\<close>

definition DormandPrince_commit :: "program \<Rightarrow> cl_state \<Rightarrow> cl_state" where
  "DormandPrince_commit P self =
     (let s1 = self\<lparr>d_un5 := kernel_of P ''UpdateDisplacement'' []
                       [d_un_temp self, d_un5 self] [h_dt self]\<rparr>
      in s1\<lparr>d_horizons := CheckBonds (d_horizons s1) (d_un5 s1) (d_coords s1)
                   (d_bond_critical_stretch s1)\<rparr>)"

definition DormandPrince_runtime :: "program \<Rightarrow> cl_state \<Rightarrow> cl_state" where
  "DormandPrince_runtime P self =
     (case DormandPrince_adapt_time_step P (DormandPrince_stages P self) of
        (s, adapt) \<Rightarrow> if adapt = 1 then s else DormandPrince_commit P s)"

text \<open>
  A force evaluation of the optimised adaptive classes: CalcBondForce on the bond
  forces, then ReduceForce into the stage's force buffer.
\<close>

definition DormandPrinceOptimised_stages :: "program \<Rightarrow> cl_state \<Rightarrow> cl_state" where
  "DormandPrinceOptimised_stages P self =
     (let a1 = CalcBondForce_adaptive P d_un5 self;
          s1 = a1\<lparr>d_k1dn := kernel_of P ''ReduceForce'' [] [d_forces a1, d_k1dn a1]
                     [h_force_load_scale a1]\<rparr>;
          s2 = s1\<lparr>d_un_temp := kernel_of P ''PartialUpdateDisplacement'' []
                     [d_k1dn s1, d_un5 s1, d_un_temp s1] [h_dt s1]\<rparr>;
          a3 = CalcBondForce_adaptive P d_un_temp s2;
          s3 = a3\<lparr>d_k2dn := kernel_of P ''ReduceForce'' [] [d_forces a3, d_k2dn a3]
                     [h_force_load_scale a3]\<rparr>;
          s4 = s3\<lparr>d_un_temp := kernel_of P ''PartialUpdateDisplacement2'' []
                     [d_k1dn s3, d_k2dn s3, d_un5 s3, d_un_temp s3] [h_dt s3]\<rparr>;
          a5 = CalcBondForce_adaptive P d_un_temp s4;
          s5 = a5\<lparr>d_k3dn := kernel_of P ''ReduceForce'' [] [d_forces a5, d_k3dn a5]
                     [h_force_load_scale a5]\<rparr>;
          s6 = s5\<lparr>d_un_temp := kernel_of P ''PartialUpdateDisplacement3'' []
                     [d_k1dn s5, d_k2dn s5, d_k3dn s5, d_un5 s5, d_un_temp s5] [h_dt s5]\<rparr>;
          a7 = CalcBondForce_adaptive P d_un_temp s6;
          s7 = a7\<lparr>d_k4dn := kernel_of P ''ReduceForce'' [] [d_forces a7, d_k4dn a7]
                     [h_force_load_scale a7]\<rparr>;
          s8 = s7\<lparr>d_un_temp := kernel_of P ''PartialUpdateDisplacement4'' []
                     [d_k1dn s7, d_k2dn s7, d_k3dn s7, d_k4dn s7, d_un5 s7, d_un_temp s7]
                     [h_dt s7]\<rparr>;
          a9 = CalcBondForce_adaptive P d_un_temp s8;
          s9 = a9\<lparr>d_k5dn := kernel_of P ''ReduceForce'' [] [d_forces a9, d_k5dn a9]
                     [h_force_load_scale a9]\<rparr>;
          s10 = s9\<lparr>d_un_temp := kernel_of P ''PartialUpdateDisplacement5'' []
                     [d_k1dn s9, d_k2dn s9, d_k3dn s9, d_k4dn s9, d_k5dn s9, d_un5 s9,
                      d_un_temp s9] [h_dt s9]\<rparr>;
          a11 = CalcBondForce_adaptive P d_un_temp s10;
          s11 = a11\<lparr>d_k6dn := kernel_of P ''ReduceForce'' [] [d_forces a11, d_k6dn a11]
                     [h_force_load_scale a11]\<rparr>;
          s12 = s11\<lparr>d_un_temp := kernel_of P ''PartialUpdateDisplacement6'' []
                     [d_k1dn s11, d_k3dn s11, d_k4dn s11, d_k5dn s11, d_k6dn s11, d_un5 s11,
                      d_un_temp s11] [h_dt s11]\<rparr>;
          a13 = CalcBondForce_adaptive P d_un_temp s12
      in a13\<lparr>d_k7dn := kernel_of P ''ReduceForce'' [] [d_forces a13, d_k7dn a13]
                    [h_force_load_scale a13]\<rparr>)"

definition DormandPrinceOptimised_runtime :: "program \<Rightarrow> cl_state \<Rightarrow> cl_state" where
  "DormandPrinceOptimised_runtime P self =
     (case DormandPrince_adapt_time_step P (DormandPrinceOptimised_stages P self) of
        (s, adapt) \<Rightarrow> if adapt = 1 then s else DormandPrince_commit P s)"

definition HeunEuler_stages :: "program \<Rightarrow> cl_state \<Rightarrow> cl_state" where
  "HeunEuler_stages P self =
     (let s1 = self\<lparr>d_k1dn := kernel_of P ''CalcBondForce'' (d_horizons self)
                       [d_k1dn self, d_un2 self] [h_force_load_scale self]\<rparr>;
          s2 = s1\<lparr>d_un1 := kernel_of P ''PartialUpdateDisplacement'' []
                     [d_k1dn s1, d_un2 s1, d_un1 s1] [h_dt s1]\<rparr>
      in s2\<lparr>d_k2dn := kernel_of P ''CalcBondForce'' (d_horizons s2)
                   [d_k2dn s2, d_un1 s2] [h_force_load_scale s2]\<rparr>)"

definition HeunEuler_commit :: "program \<Rightarrow> cl_state \<Rightarrow> cl_state" where
  "HeunEuler_commit P self =
     (let s1 = self\<lparr>d_un2 := kernel_of P ''UpdateDisplacement'' []
                       [d_un2_1 self, d_un2 self] [h_dt self]\<rparr>
      in s1\<lparr>d_horizons := CheckBonds (d_horizons s1) (d_un2 s1) (d_coords s1)
                   (d_bond_critical_stretch s1)\<rparr>)"

definition HeunEuler_runtime :: "program \<Rightarrow> cl_state \<Rightarrow> cl_state" where
  "HeunEuler_runtime P self =
     (case HeunEuler_adapt_time_step P (HeunEuler_stages P self) of
        (s, adapt) \<Rightarrow> if adapt = 1 then s else HeunEuler_commit P s)"

definition HeunEulerOptimised_stages :: "program \<Rightarrow> cl_state \<Rightarrow> cl_state" where
  "HeunEulerOptimised_stages P self =
     (let a1 = CalcBondForce_adaptive P d_un2 self;
          s1 = a1\<lparr>d_k1dn := kernel_of P ''ReduceForce'' [] [d_forces a1, d_k1dn a1]
                     [h_force_load_scale a1]\<rparr>;
          s2 = s1\<lparr>d_un1 := kernel_of P ''PartialUpdateDisplacement'' []
                     [d_k1dn s1, d_un2 s1, d_un1 s1] [h_dt s1]\<rparr>;
          a3 = CalcBondForce_adaptive P d_un1 s2
      in a3\<lparr>d_k2dn := kernel_of P ''ReduceForce'' [] [d_forces a3, d_k2dn a3]
                   [h_force_load_scale a3]\<rparr>)"

definition HeunEulerOptimised_runtime :: "program \<Rightarrow> cl_state \<Rightarrow> cl_state" where
  "HeunEulerOptimised_runtime P self =
     (case HeunEuler_adapt_time_step P (HeunEulerOptimised_stages P self) of
        (s, adapt) \<Rightarrow> if adapt = 1 then s else HeunEuler_commit P s)"

subsection \<open>write\<close>

text \<open>
  \<open>write(self, model, t, sample)\<close>: the damage kernel, the copies from the device to the
  host, the loop over the tip nodes, and the return of
  \<open>(self.h_damage, tip_displacement, tip_shear_force)\<close>. The call of \<open>vtk.write\<close> writes a
  file and touches neither the integrator nor the result; it is left out. An IndexError
  of the loop ends the call.
\<close>

definition EulerCromer_write ::
  "program \<Rightarrow> model \<Rightarrow> cl_state \<Rightarrow> error + (cl_state \<times> real list \<times> real option \<times> real)" where
  "EulerCromer_write P m self =
     (let s1 = self\<lparr>d_damage := damage_of P (d_horizons self)\<rparr>;
          s2 = s1\<lparr>h_damage := d_damage s1\<rparr>;
          s3 = s2\<lparr>h_un := d_un s2\<rparr>;
          s4 = s3\<lparr>h_uddn := d_uddn s3\<rparr>
      in case tip_diagnostics (nnodes m) (h_tip_types s4) (h_un s4) (h_uddn s4) of
           Inl e \<Rightarrow> Inl e
         | Inr (tip_displacement, tip_shear_force) \<Rightarrow>
             Inr (s4, h_damage s4, tip_displacement, tip_shear_force))"

text \<open>EulerCromerOptimised.write is the text of EulerCromer.write with the kernel ReduceDamage.\<close>

definition EulerCromerOptimised_write ::
  "program \<Rightarrow> model \<Rightarrow> cl_state \<Rightarrow> error + (cl_state \<times> real list \<times> real option \<times> real)" where
  "EulerCromerOptimised_write P m self = EulerCromer_write P m self"

definition EulerOpenCL_write ::
  "program \<Rightarrow> model \<Rightarrow> cl_state \<Rightarrow> error + (cl_state \<times> real list \<times> real option \<times> real)" where
  "EulerOpenCL_write P m self =
     (let s1 = self\<lparr>d_damage := damage_of P (d_horizons self)\<rparr>;
          s2 = s1\<lparr>h_damage := d_damage s1\<rparr>;
          s3 = s2\<lparr>h_un := d_un s2\<rparr>;
          s4 = s3\<lparr>h_udn1 := d_udn1 s3\<rparr>
      in case tip_diagnostics (nnodes m) (h_tip_types s4) (h_un s4) (h_udn1 s4) of
           Inl e \<Rightarrow> Inl e
         | Inr (tip_displacement, tip_shear_force) \<Rightarrow>
             Inr (s4, h_damage s4, tip_displacement, tip_shear_force))"

definition EulerOpenCLOptimised_write ::
  "program \<Rightarrow> model \<Rightarrow> cl_state \<Rightarrow> error + (cl_state \<times> real list \<times> real option \<times> real)" where
  "EulerOpenCLOptimised_write P m self =
     (let s1 = self\<lparr>d_damage := damage_of P (d_horizons self)\<rparr>;
          s2 = s1\<lparr>h_damage := d_damage s1\<rparr>;
          s3 = s2\<lparr>h_un := d_un s2\<rparr>;
          s4 = s3\<lparr>h_udn := d_udn s3\<rparr>
      in case tip_diagnostics (nnodes m) (h_tip_types s4) (h_un s4) (h_udn s4) of
           Inl e \<Rightarrow> Inl e
         | Inr (tip_displacement, tip_shear_force) \<Rightarrow>
             Inr (s4, h_damage s4, tip_displacement, tip_shear_force))"

text \<open>EulerOpenCLOptimisedLumped.write is the text of EulerOpenCLOptimised.write.\<close>

definition EulerOpenCLOptimisedLumped_write ::
  "program \<Rightarrow> model \<Rightarrow> cl_state \<Rightarrow> error + (cl_state \<times> real list \<times> real option \<times> real)" where
  "EulerOpenCLOptimisedLumped_write P m self = EulerOpenCLOptimised_write P m self"

text \<open>
  VelocityVerletOpenCL.write has no \<open>tip_shear_force\<close>: its loop adds up the displacements
  only and it returns \<open>(self.h_damage, tip_displacement)\<close>. The loop is \<open>tip_loop\<close> with
  the displacements in the place of the forces too, the force sum dropped.
\<close>

definition VelocityVerletOpenCL_write ::
  "program \<Rightarrow> model \<Rightarrow> cl_state \<Rightarrow> error + (cl_state \<times> real list \<times> real option)" where
  "VelocityVerletOpenCL_write P m self =
     (let s1 = self\<lparr>d_damage := damage_of P (d_horizons self)\<rparr>;
          s2 = s1\<lparr>h_damage := d_damage s1\<rparr>;
          s3 = s2\<lparr>h_un := d_un s2\<rparr>
      in case tip_diagnostics (nnodes m) (h_tip_types s3) (h_un s3) (h_un s3) of
           Inl e \<Rightarrow> Inl e
         | Inr (tip_displacement, unused) \<Rightarrow> Inr (s3, h_damage s3, tip_displacement))"

definition RK4_write ::
  "program \<Rightarrow> model \<Rightarrow> cl_state \<Rightarrow> error + (cl_state \<times> real list \<times> real option \<times> real)" where
  "RK4_write P m self =
     (let s1 = self\<lparr>d_damage := damage_of P (d_horizons self)\<rparr>;
          s2 = s1\<lparr>h_damage := d_damage s1\<rparr>;
          s3 = s2\<lparr>h_un := d_un s2\<rparr>;
          s4 = s3\<lparr>h_k1dn := d_k1dn s3\<rparr>
      in case tip_diagnostics (nnodes m) (h_tip_types s4) (h_un s4) (h_k1dn s4) of
           Inl e \<Rightarrow> Inl e
         | Inr (tip_displacement, tip_shear_force) \<Rightarrow>
             Inr (s4, h_damage s4, tip_displacement, tip_shear_force))"

text \<open>RK4Optimised.write is the text of RK4.write with the kernel ReduceDamage.\<close>

definition RK4Optimised_write ::
  "program \<Rightarrow> model \<Rightarrow> cl_state \<Rightarrow> error + (cl_state \<times> real list \<times> real option \<times> real)" where
  "RK4Optimised_write P m self = RK4_write P m self"

definition DormandPrince_write ::
  "program \<Rightarrow> model \<Rightarrow> cl_state \<Rightarrow> error + (cl_state \<times> real list \<times> real option \<times> real)" where
  "DormandPrince_write P m self =
     (let s1 = self\<lparr>d_damage := damage_of P (d_horizons self)\<rparr>;
          s2 = s1\<lparr>h_damage := d_damage s1\<rparr>;
          s3 = s2\<lparr>h_un5 := d_un5 s2\<rparr>;
          s4 = s3\<lparr>h_k1dn := d_k1dn s3\<rparr>
      in case tip_diagnostics (nnodes m) (h_tip_types s4) (h_un5 s4) (h_k1dn s4) of
           Inl e \<Rightarrow> Inl e
         | Inr (tip_displacement, tip_shear_force) \<Rightarrow>
             Inr (s4, h_damage s4, tip_displacement, tip_shear_force))"

text \<open>DormandPrinceOptimised.write is the text of DormandPrince.write with the kernel ReduceDamage.\<close>

definition DormandPrinceOptimised_write ::
  "program \<Rightarrow> model \<Rightarrow> cl_state \<Rightarrow> error + (cl_state \<times> real list \<times> real option \<times> real)" where
  "DormandPrinceOptimised_write P m self = DormandPrince_write P m self"

definition HeunEuler_write ::
  "program \<Rightarrow> model \<Rightarrow> cl_state \<Rightarrow> error + (cl_state \<times> real list \<times> real option \<times> real)" where
  "HeunEuler_write P m self =
     (let s1 = self\<lparr>d_damage := damage_of P (d_horizons self)\<rparr>;
          s2 = s1\<lparr>h_damage := d_damage s1\<rparr>;
          s3 = s2\<lparr>h_un2 := d_un2 s2\<rparr>;
          s4 = s3\<lparr>h_k1dn := d_k1dn s3\<rparr>
      in case tip_diagnostics (nnodes m) (h_tip_types s4) (h_un2 s4) (h_k1dn s4) of
           Inl e \<Rightarrow> Inl e
         | Inr (tip_displacement, tip_shear_force) \<Rightarrow>
             Inr (s4, h_damage s4, tip_displacement, tip_shear_force))"

text \<open>HeunEulerOptimised.write is the text of HeunEuler.write with the kernel ReduceDamage.\<close>

definition HeunEulerOptimised_write ::
  "program \<Rightarrow> model \<Rightarrow> cl_state \<Rightarrow> error + (cl_state \<times> real list \<times> real option \<times> real)" where
  "HeunEulerOptimised_write P m self = HeunEuler_write P m self"

text \<open>
  \<open>EulerStochastic.write(self, model, t, sample, realisation)\<close> has no loop over the tip
  nodes and returns \<open>self.h_damage\<close> alone.
\<close>

definition EulerStochastic_write :: "program \<Rightarrow> model \<Rightarrow> cl_state \<Rightarrow> cl_state \<times> real list" where
  "EulerStochastic_write P m self =
     (let s1 = self\<lparr>d_damage := damage_of P (d_horizons self)\<rparr>;
          s2 = s1\<lparr>h_damage := d_damage s1\<rparr>;
          s3 = s2\<lparr>h_un := d_un s2\<rparr>
      in (s3, h_damage s3))"

subsection \<open>Runs\<close>

text \<open>
  A run of an integrator is a sequence of calls of its methods on one object. A method a
  class does not define raises AttributeError.
\<close>

datatype integrator =
  EulerCromer | EulerCromerOptimised | EulerOpenCL | EulerOpenCLOptimised
| VelocityVerletOpenCL | RK4 | RK4Optimised | DormandPrince | DormandPrinceOptimised
| EulerStochastic | HeunEuler | HeunEulerOptimised | EulerOpenCLOptimisedLumped

datatype operation = Runtime nat | Write | IncrementLoad real | Reset "ndarray list"

fun runtime_of :: "program \<Rightarrow> integrator \<Rightarrow> nat \<Rightarrow> cl_state \<Rightarrow> cl_state" where
  "runtime_of P EulerCromer step = EulerCromer_runtime P"
| "runtime_of P EulerCromerOptimised step = EulerCromerOptimised_runtime P"
| "runtime_of P EulerOpenCL step = EulerOpenCL_runtime P"
| "runtime_of P EulerOpenCLOptimised step = EulerOpenCLOptimised_runtime P"
| "runtime_of P VelocityVerletOpenCL step = VelocityVerletOpenCL_runtime P"
| "runtime_of P RK4 step = RK4_runtime P"
| "runtime_of P RK4Optimised step = RK4Optimised_runtime P"
| "runtime_of P DormandPrince step = DormandPrince_runtime P"
| "runtime_of P DormandPrinceOptimised step = DormandPrinceOptimised_runtime P"
| "runtime_of P EulerStochastic step = EulerStochastic_runtime P step"
| "runtime_of P HeunEuler step = HeunEuler_runtime P"
| "runtime_of P HeunEulerOptimised step = HeunEulerOptimised_runtime P"
| "runtime_of P EulerOpenCLOptimisedLumped step = EulerOpenCLOptimisedLumped_runtime P"

definition after :: "error + (cl_state \<times> 'a) \<Rightarrow> error + cl_state" where
  "after r = (case r of Inl e \<Rightarrow> Inl e | Inr (s, x) \<Rightarrow> Inr s)"

fun write_of :: "program \<Rightarrow> model \<Rightarrow> integrator \<Rightarrow> cl_state \<Rightarrow> error + cl_state" where
  "write_of P m EulerCromer s = after (EulerCromer_write P m s)"
| "write_of P m EulerCromerOptimised s = after (EulerCromerOptimised_write P m s)"
| "write_of P m EulerOpenCL s = after (EulerOpenCL_write P m s)"
| "write_of P m EulerOpenCLOptimised s = after (EulerOpenCLOptimised_write P m s)"
| "write_of P m VelocityVerletOpenCL s = after (VelocityVerletOpenCL_write P m s)"
| "write_of P m RK4 s = after (RK4_write P m s)"
| "write_of P m RK4Optimised s = after (RK4Optimised_write P m s)"
| "write_of P m DormandPrince s = after (DormandPrince_write P m s)"
| "write_of P m DormandPrinceOptimised s = after (DormandPrinceOptimised_write P m s)"
| "write_of P m EulerStochastic s = Inr (fst (EulerStochastic_write P m s))"
| "write_of P m HeunEuler s = after (HeunEuler_write P m s)"
| "write_of P m HeunEulerOptimised s = after (HeunEulerOptimised_write P m s)"
| "write_of P m EulerOpenCLOptimisedLumped s = after (EulerOpenCLOptimisedLumped_write P m s)"

fun apply_operation ::
  "program \<Rightarrow> model \<Rightarrow> integrator \<Rightarrow> operation \<Rightarrow> cl_state \<Rightarrow> error + cl_state" where
  "apply_operation P m c (Runtime step) s = Inr (runtime_of P c step s)"
| "apply_operation P m c Write s = write_of P m c s"
| "apply_operation P m c (IncrementLoad load_scale) s =
     (if c = EulerStochastic then Inl AttributeError else Inr (incrementLoad m load_scale s))"
| "apply_operation P m c (Reset pn) s =
     (if c = EulerStochastic then Inr (EulerStochastic_reset m pn s) else Inl AttributeError)"

fun run ::
  "program \<Rightarrow> model \<Rightarrow> integrator \<Rightarrow> operation list \<Rightarrow> cl_state \<Rightarrow> error + cl_state" where
  "run P m c [] s = Inr s"
| "run P m c (op # ops) s =
     (case apply_operation P m c op s of Inl e \<Rightarrow> Inl e | Inr s' \<Rightarrow> run P m c ops s')"

fun is_reset :: "operation \<Rightarrow> bool" where
  "is_reset (Reset pn) = True"
| "is_reset op = False"

text \<open>The bond in slot \<open>k\<close> of node \<open>i\<close> is broken in the adjacency buffer \<open>hs\<close>.\<close>

definition broken :: "int list list \<Rightarrow> nat \<Rightarrow> nat \<Rightarrow> bool" where
  "broken hs i k = (i < length hs \<and> k < length (hs ! i) \<and> hs ! i ! k = - 1)"

text \<open>Every slot that is not active in \<open>hs\<close> is not active in \<open>hs'\<close>, of the same shape.\<close>

definition still_broken :: "int list list \<Rightarrow> int list list \<Rightarrow> bool" where
  "still_broken hs hs' = list_all2 (list_all2 (\<lambda>j j'. j = - 1 \<longrightarrow> j' = - 1)) hs hs'"

subsection \<open>The adaptive classes, by name\<close>

fun adaptive :: "integrator \<Rightarrow> bool" where
  "adaptive DormandPrince = True"
| "adaptive DormandPrinceOptimised = True"
| "adaptive HeunEuler = True"
| "adaptive HeunEulerOptimised = True"
| "adaptive c = False"

text \<open>The force evaluations of \<open>runtime\<close> before the call of \<open>adapt_time_step\<close>.\<close>

fun stages_of :: "program \<Rightarrow> integrator \<Rightarrow> cl_state \<Rightarrow> cl_state" where
  "stages_of P DormandPrince = DormandPrince_stages P"
| "stages_of P DormandPrinceOptimised = DormandPrinceOptimised_stages P"
| "stages_of P HeunEuler = HeunEuler_stages P"
| "stages_of P HeunEulerOptimised = HeunEulerOptimised_stages P"
| "stages_of P c = (\<lambda>s. s)"

fun adapt_time_step_of :: "program \<Rightarrow> integrator \<Rightarrow> cl_state \<Rightarrow> cl_state \<times> int" where
  "adapt_time_step_of P DormandPrince = DormandPrince_adapt_time_step P"
| "adapt_time_step_of P DormandPrinceOptimised = DormandPrince_adapt_time_step P"
| "adapt_time_step_of P HeunEuler = HeunEuler_adapt_time_step P"
| "adapt_time_step_of P HeunEulerOptimised = HeunEuler_adapt_time_step P"
| "adapt_time_step_of P c = (\<lambda>s. (s, 0))"

fun commit_of :: "program \<Rightarrow> integrator \<Rightarrow> cl_state \<Rightarrow> cl_state" where
  "commit_of P DormandPrince = DormandPrince_commit P"
| "commit_of P DormandPrinceOptimised = DormandPrince_commit P"
| "commit_of P HeunEuler = HeunEuler_commit P"
| "commit_of P HeunEulerOptimised = HeunEuler_commit P"
| "commit_of P c = (\<lambda>s. s)"

text \<open>
  The buffer of the committed displacements (the one \<open>write\<close> reports) and the buffer of
  the trial displacements that the commit reads.
\<close>

fun committed :: "integrator \<Rightarrow> cl_state \<Rightarrow> ndarray" where
  "committed DormandPrince = d_un5"
| "committed DormandPrinceOptimised = d_un5"
| "committed HeunEuler = d_un2"
| "committed HeunEulerOptimised = d_un2"
| "committed c = d_un"

fun trial :: "integrator \<Rightarrow> cl_state \<Rightarrow> ndarray" where
  "trial DormandPrince = d_un_temp"
| "trial DormandPrinceOptimised = d_un_temp"
| "trial HeunEuler = d_un2_1"
| "trial HeunEulerOptimised = d_un2_1"
| "trial c = d_un"

text \<open>
  The state in which \<open>adapt_time_step\<close> leaves the object, the value it returns, and the
  mean of the error norms it compares with the bounds.
\<close>

definition adapted :: "program \<Rightarrow> integrator \<Rightarrow> cl_state \<Rightarrow> cl_state" where
  "adapted P c self = fst (adapt_time_step_of P c (stages_of P c self))"

definition adapt_flag :: "program \<Rightarrow> integrator \<Rightarrow> cl_state \<Rightarrow> int" where
  "adapt_flag P c self = snd (adapt_time_step_of P c (stages_of P c self))"

definition step_error :: "program \<Rightarrow> integrator \<Rightarrow> cl_state \<Rightarrow> real option" where
  "step_error P c self = mean_error (h_errorn (adapted P c self))"

subsection \<open>Displacement boundary conditions of the OpenCL classes\<close>

text \<open>
  Modelled from the spec: the displacement boundary-condition tables, which the classes
  keep on the device as \<open>d_bc_types\<close> and \<open>d_bc_values\<close> (\<open>d_bctypes\<close> and \<open>d_bcvalues\<close> in
  VelocityVerletOpenCL), one entry per node and degree of freedom. The layer that fills
  them and the kernels that read them are not among the sources: \<open>constrained bc i j\<close>
  says that component \<open>j\<close> of node \<open>i\<close> has an imposed value, \<open>prescribed bc i j\<close> is that
  value.
\<close>

record bc_tables =
  constrained :: "nat \<Rightarrow> nat \<Rightarrow> bool"
  prescribed :: "nat \<Rightarrow> nat \<Rightarrow> real"

text \<open>
  Modelled from the spec: what a kernel that is handed the two tables does with them
  (the kernel sources are missing). After its update of a row it holds every constrained
  degree of freedom at the prescribed value, overriding the update; the other components
  are as updated.
\<close>

definition hold_row :: "bc_tables \<Rightarrow> nat \<Rightarrow> vec3 \<Rightarrow> vec3" where
  "hold_row bc i v =
     (if constrained bc i 0 then prescribed bc i 0 else vx v,
      if constrained bc i 1 then prescribed bc i 1 else vy v,
      if constrained bc i 2 then prescribed bc i 2 else vz v)"

text \<open>
  Modelled from the spec: the same for a node array, row \<open>i\<close> being node \<open>i\<close>.
\<close>

definition hold_bc :: "bc_tables \<Rightarrow> ndarray \<Rightarrow> ndarray" where
  "hold_bc bc a = map2 (hold_row bc) [0..<length a] a"

text \<open>
  The kernel of each class that is handed the displacement boundary-condition tables in
  \<open>runtime\<close>, and the buffer it writes: UpdateDisplacement (\<open>cl_kernel_update_displacement\<close>,
  \<open>cl_kernel_displacement_update\<close>) on the committed displacements, TimeMarching1 of
  EulerOpenCL on \<open>d_un\<close>, TimeMarching3 of VelocityVerletOpenCL on the velocities \<open>d_udn\<close> (its
  TimeMarching1, which writes \<open>d_un\<close>, is not handed the tables), and the ReduceForce of
  EulerOpenCLOptimisedLumped on \<open>d_un\<close>.
\<close>

fun bc_kernels :: "integrator \<Rightarrow> string list" where
  "bc_kernels EulerOpenCL = [''TimeMarching1'']"
| "bc_kernels VelocityVerletOpenCL = [''TimeMarching3'']"
| "bc_kernels EulerOpenCLOptimisedLumped = [''ReduceForce.un'']"
| "bc_kernels c = [''UpdateDisplacement'']"

fun bc_buffer :: "integrator \<Rightarrow> cl_state \<Rightarrow> ndarray" where
  "bc_buffer VelocityVerletOpenCL = d_udn"
| "bc_buffer c = committed c"

text \<open>
  Modelled from the spec: the program of class \<open>c\<close> built with the tables \<open>bc\<close>. The tables
  are read-only buffers, so they are part of the program: the kernels that are handed
  them hold the constrained degrees of freedom of their result, the other kernels are
  those of \<open>P\<close>.
\<close>

definition with_bc :: "bc_tables \<Rightarrow> integrator \<Rightarrow> program \<Rightarrow> program" where
  "with_bc bc c P =
     P\<lparr>kernel_of := (\<lambda>name. if name \<in> set (bc_kernels c)
                                then (\<lambda>hs bufs scalars. hold_bc bc (kernel_of P name hs bufs scalars))
                                else kernel_of P name)\<rparr>"

text \<open>
  Modelled from the spec: a row meets the boundary conditions when each of its constrained
  components has its prescribed value.
\<close>

definition row_meets_bc :: "bc_tables \<Rightarrow> nat \<Rightarrow> vec3 \<Rightarrow> bool" where
  "row_meets_bc bc i v =
     ((constrained bc i 0 \<longrightarrow> vx v = prescribed bc i 0) \<and>
      (constrained bc i 1 \<longrightarrow> vy v = prescribed bc i 1) \<and>
      (constrained bc i 2 \<longrightarrow> vz v = prescribed bc i 2))"

text \<open>
  Modelled from the spec: a node array meets the boundary conditions when every row does.
\<close>

definition meets_bc :: "bc_tables \<Rightarrow> ndarray \<Rightarrow> bool" where
  "meets_bc bc a = list_all (\<lambda>(i, v). row_meets_bc bc i v) (zip [0..<length a] a)"

subsection \<open>Tip nodes\<close>

text \<open>The nodes below \<open>n\<close> whose tip flag is 1, the mean and the sum of the third components over them.\<close>

definition tip_nodes :: "nat \<Rightarrow> int list \<Rightarrow> nat list" where
  "tip_nodes n tts = filter (\<lambda>i. tts ! i = 1) [0..<n]"

definition tip_sum :: "nat list \<Rightarrow> ndarray \<Rightarrow> real" where
  "tip_sum tips a = sum_list (map (\<lambda>i. vz (a ! i)) tips)"

definition tip_mean :: "nat list \<Rightarrow> ndarray \<Rightarrow> real" where
  "tip_mean tips a = tip_sum tips a / real (length tips)"

text \<open>
  The node arrays of an object have at least \<open>nnodes\<close> rows and there is a tip flag for
  every node: what \<open>__init__\<close> sets up for a model whose \<open>tip_types\<close> has \<open>nnodes\<close> entries.
\<close>

definition well_sized :: "model \<Rightarrow> cl_state \<Rightarrow> bool" where
  "well_sized m self =
     (nnodes m \<le> length (h_tip_types self) \<and> nnodes m \<le> length (d_un self) \<and>
      nnodes m \<le> length (d_un2 self) \<and> nnodes m \<le> length (d_un5 self) \<and>
      nnodes m \<le> length (d_udn self) \<and> nnodes m \<le> length (d_udn1 self) \<and>
      nnodes m \<le> length (d_uddn self) \<and> nnodes m \<le> length (d_k1dn self))"

subsection \<open>Invariants of the kernel sequences\<close>

definition bonds_kept :: "cl_state \<Rightarrow> cl_state \<Rightarrow> bool" where
  "bonds_kept s x = (still_broken (d_horizons s) (d_horizons x) \<and> h_horizons x = h_horizons s)"

definition stage_frame :: "cl_state \<Rightarrow> cl_state \<Rightarrow> bool" where
  "stage_frame s x =
     (h_dt x = h_dt s \<and> error_size_max x = error_size_max s \<and>
      error_size_min x = error_size_min s \<and> d_un5 x = d_un5 s \<and> d_un2 x = d_un2 s \<and>
      d_coords x = d_coords s \<and> d_bond_critical_stretch x = d_bond_critical_stretch s)"

subsection \<open>A two-node example\<close>

text \<open>
  Two nodes at distance 1 on the x axis, each the only neighbour of the other, critical
  stretch 1/2 for both bonds, both nodes tip nodes.
\<close>

definition two_nodes :: model where
  "two_nodes =
     \<lparr>nnodes = 2, num_force_bc_nodes = 1, horizons = [[1], [0]],
      coords = [(0, 0, 0), (1, 0, 0)], bond_critical_stretch = (\<lambda>i k. 1 / 2),
      tip_types = [1, 1], model_dt = 1\<rparr>"

text \<open>A memory whose node buffers hold two zero rows each.\<close>

definition zero_memory :: cl_state where
  "zero_memory =
     \<lparr>h_horizons = [], h_tip_types = [], h_damage = [], h_errorn = zeros 2, h_pn = [],
      h_un = zeros 2, h_udn = zeros 2, h_udn1 = zeros 2, h_uddn = zeros 2, h_un2 = zeros 2,
      h_un5 = zeros 2, h_k1dn = zeros 2, h_dt = 0, h_force_load_scale = 0,
      error_size_max = 0, error_size_min = 0, d_coords = [],
      d_bond_critical_stretch = (\<lambda>i k. 0), d_horizons = [], d_damage = [],
      d_errorn = zeros 2, d_forces = zeros 2, d_pn = [], d_un = zeros 2, d_udn = zeros 2,
      d_udn1 = zeros 2, d_uddn = zeros 2, d_uddn1 = zeros 2, d_un1 = zeros 2,
      d_un2 = zeros 2, d_un3 = zeros 2, d_un2_1 = zeros 2, d_un5 = zeros 2,
      d_un_temp = zeros 2, d_k1dn = zeros 2, d_k2dn = zeros 2, d_k3dn = zeros 2,
      d_k4dn = zeros 2, d_k5dn = zeros 2, d_k6dn = zeros 2, d_k7dn = zeros 2\<rparr>"

text \<open>The damage of a node as the share of its slots that are not active.\<close>

definition example_damage :: "int list list \<Rightarrow> real list" where
  "example_damage hs = map (\<lambda>row. real (length (filter (\<lambda>j. j = - 1) row)) / real (length row)) hs"

text \<open>
  A program for the Heun-Euler classes: a unit force along x on the second node, the
  predictor \<open>un1 = un2 + dt * k1\<close>, the error \<open>un1 - un2\<close>, the corrector and the commit
  passing the predictor on.
\<close>

definition heun_kernels :: "string \<Rightarrow> kernel" where
  "heun_kernels name hs bufs scalars =
     (if name = ''PartialUpdateDisplacement''
        then map2 add3 (bufs ! 1) (scalar_mul (scalars ! 0) (bufs ! 0))
      else if name = ''CheckError'' then map2 sub3 (bufs ! 2) (bufs ! 3)
      else if name = ''CheckError.un2_1'' then bufs ! 2
      else if name = ''UpdateDisplacement'' then bufs ! 0
      else if name = ''ReduceForce'' then bufs ! 0
      else [(0, 0, 0), (1, 0, 0)])"

definition heun_program :: program where
  "heun_program = \<lparr>kernel_of = heun_kernels, damage_of = example_damage\<rparr>"

text \<open>
  A program for EulerStochastic: UpdateDisplacement adds the noise increment of the step
  to the displacements; the forces stay as they are.
\<close>

definition stochastic_kernels :: "string \<Rightarrow> kernel" where
  "stochastic_kernels name hs bufs scalars =
     (if name = ''UpdateDisplacement''
        then map2 add3 (bufs ! 1) (bufs ! (2 + nat \<lfloor>scalars ! 0\<rfloor>))
      else if name = ''ReduceForce'' then bufs ! 1
      else bufs ! 0)"

definition stochastic_program :: program where
  "stochastic_program = \<lparr>kernel_of = stochastic_kernels, damage_of = example_damage\<rparr>"

text \<open>A noise sample for one step: the second node is moved by 1 along x.\<close>

definition unit_noise :: "ndarray list" where
  "unit_noise = [[(0, 0, 0), (1, 0, 0)]]"

text \<open>
  The two-node object with third displacement components 1 and 3 and third force
  components 2 and 4, and the same object for the model without tip nodes.
\<close>

definition tip_example :: cl_state where
  "tip_example =
     (init_buffers two_nodes zero_memory)
       \<lparr>d_un := [(0, 0, 1), (0, 0, 3)], d_uddn := [(0, 0, 2), (0, 0, 4)]\<rparr>"

definition no_tip_model :: model where
  "no_tip_model = two_nodes\<lparr>tip_types := [0, 0]\<rparr>"

definition no_tip_example :: cl_state where
  "no_tip_example =
     (init_buffers no_tip_model zero_memory)
       \<lparr>d_un := [(0, 0, 1), (0, 0, 3)], d_uddn := [(0, 0, 2), (0, 0, 4)]\<rparr>"

text \<open>
  Boundary-condition tables that hold the first component of node 0 at 5 and constrain
  nothing else.
\<close>

definition clamp_example :: bc_tables where
  "clamp_example = \<lparr>constrained = (\<lambda>i j. i = 0 \<and> j = 0), prescribed = (\<lambda>i j. 5)\<rparr>"

text \<open>
  The two-node object as the \<open>__init__\<close> of a Heun-Euler class leaves it (default error
  bounds, time step 1) and as the \<open>__init__\<close> of EulerStochastic leaves it, on the memory
  of zeros.
\<close>

definition heun_example :: cl_state where
  "heun_example = HeunEuler_init two_nodes None None zero_memory"

definition stochastic_example :: cl_state where
  "stochastic_example = init_buffers two_nodes zero_memory"

section \<open>Properties of the Euler integrator\<close>

lemma np_add_same_length:
  "length a = length b \<Longrightarrow> np_add a b = Inr (map2 add3 a b)"
  by (simp add: np_add_def)

lemma Euler_call_same_shape:
  assumes "length u = length f"
  shows "Euler_call self u f =
           Inr (map2 add3 u (mul_scalar (scalar_mul (dt self) f) (dampening self)))"
  using assms by (simp add: Euler_call_def np_add_def mul_scalar_def scalar_mul_def)

lemma Euler_call_row:
  assumes "length u = length f" and "i < length u"
  shows "map2 add3 u (mul_scalar (scalar_mul d f) c) ! i =
           (vx (u ! i) + d * vx (f ! i) * c,
            vy (u ! i) + d * vy (f ! i) * c,
            vz (u ! i) + d * vz (f ! i) * c)"
  using assms by (simp add: mul_scalar_def scalar_mul_def add3_def vx_def vy_def vz_def)

text \<open>
  C4. For displacements \<open>u\<close> and forces \<open>f\<close> of the same shape (n, 3), the call of an Euler
  integrator built from \<open>dt\<close> and an optional \<open>dampening\<close> (1 when omitted) returns an array
  of that shape whose every component is \<open>u + dt * f * dampening\<close>; with \<open>f\<close> identically
  zero it returns \<open>u\<close>.
\<close>

theorem Euler_call_elementwise:
  assumes "length u = n" and "length f = n"
  shows "\<exists>u'. Euler_call (Euler_init dt0 d0) u f = Inr u' \<and> length u' = n \<and>
           (\<forall>i<n. vx (u' ! i) = vx (u ! i) + dt0 * vx (f ! i) * (case d0 of None \<Rightarrow> 1 | Some d \<Rightarrow> d) \<and>
                   vy (u' ! i) = vy (u ! i) + dt0 * vy (f ! i) * (case d0 of None \<Rightarrow> 1 | Some d \<Rightarrow> d) \<and>
                   vz (u' ! i) = vz (u ! i) + dt0 * vz (f ! i) * (case d0 of None \<Rightarrow> 1 | Some d \<Rightarrow> d)) \<and>
           (f = zeros n \<longrightarrow> u' = u)"
proof -
  let ?c = "case d0 of None \<Rightarrow> 1 | Some d \<Rightarrow> d"
  let ?u' = "map2 add3 u (mul_scalar (scalar_mul dt0 f) ?c)"
  have len: "length u = length f" using assms by simp
  have call: "Euler_call (Euler_init dt0 d0) u f = Inr ?u'"
    using Euler_call_same_shape [OF len, of "Euler_init dt0 d0"] by (simp add: Euler_init_def)
  have size: "length ?u' = n"
    using assms by (simp add: mul_scalar_def scalar_mul_def)
  have rows: "\<forall>i<n. ?u' ! i =
      (vx (u ! i) + dt0 * vx (f ! i) * ?c, vy (u ! i) + dt0 * vy (f ! i) * ?c,
       vz (u ! i) + dt0 * vz (f ! i) * ?c)"
    using Euler_call_row [OF len] assms by simp
  have comps: "\<forall>i<n. vx (?u' ! i) = vx (u ! i) + dt0 * vx (f ! i) * ?c \<and>
                     vy (?u' ! i) = vy (u ! i) + dt0 * vy (f ! i) * ?c \<and>
                     vz (?u' ! i) = vz (u ! i) + dt0 * vz (f ! i) * ?c"
    using rows by (simp add: vx_def vy_def vz_def)
  have zero: "f = zeros n \<longrightarrow> ?u' = u"
  proof
    assume fz: "f = zeros n"
    show "?u' = u"
    proof (rule nth_equalityI)
      show "length ?u' = length u" using size assms by simp
    next
      fix i assume "i < length ?u'"
      then have i: "i < n" using assms by (simp add: mul_scalar_def scalar_mul_def)
      then have "?u' ! i = (vx (u ! i), vy (u ! i), vz (u ! i))"
        using rows fz by (simp add: zeros_def vx_def vy_def vz_def)
      then show "?u' ! i = u ! i" by (simp add: vx_def vy_def vz_def)
    qed
  qed
  show ?thesis using call size comps zero by blast
qed

theorem Euler_call_elementwise_witness:
  "\<exists>u'. Euler_call (Euler_init (1/2) None) [(1, 2, 3), (0, 0, 0)] [(2, 4, 6), (0, 0, 2)] = Inr u' \<and>
        u' ! 0 = (2, 4, 6) \<and> u' ! 1 = (0, 0, 1)"
proof -
  have a: "length [(1, 2, 3), (0, 0, 0) :: vec3] = 2" by simp
  have b: "length [(2, 4, 6), (0, 0, 2) :: vec3] = 2" by simp
  from Euler_call_elementwise [OF a b, of "1/2" None]
  obtain u' where r: "Euler_call (Euler_init (1/2) None) [(1, 2, 3), (0, 0, 0)] [(2, 4, 6), (0, 0, 2)] = Inr u'"
    by blast
  then have "u' = [(2, 4, 6), (0, 0, 1)]"
    by (simp add: Euler_call_def Euler_init_def np_add_def mul_scalar_def scalar_mul_def
        add3_def vx_def vy_def vz_def)
  with r show ?thesis by simp
qed

section \<open>Properties of the domain decomposition\<close>

lemma np_amax_nonempty: "xs \<noteq> [] \<Longrightarrow> \<exists>m. np_amax xs = Inr m"
  by (cases xs) (simp_all add: np_amax_def)

lemma decomposeDomain_returns:
  assumes "xyz \<noteq> []"
  shows "\<exists>part. decomposeDomain xyz connectivity M 1 = Inr (part, nearest_neighbours M) \<and>
                length part = length xyz"
proof -
  from assms have "map vx xyz \<noteq> []" by simp
  then obtain m where "np_amax (map vx xyz) = Inr m"
    using np_amax_nonempty by blast
  then show ?thesis by (simp add: decomposeDomain_def Let_def)
qed

lemma decomposeDomain_unbound:
  "partitionType \<noteq> 1 \<Longrightarrow>
   decomposeDomain xyz connectivity M partitionType = Inl UnboundLocalError"
  by (simp add: decomposeDomain_def)

text \<open>
  C10, as the code has it. On a coordinate array with at least one row, \<open>decomposeDomain\<close>
  returns a pair if and only if \<open>partitionType\<close> is 1, the pair being one partition number
  per node and the neighbour lists of the \<open>M\<close> subdomains; on every other \<open>partitionType\<close>
  it raises UnboundLocalError, whatever the other arguments are.
\<close>

theorem decomposeDomain_partitionType:
  "(xyz \<noteq> [] \<longrightarrow>
      ((\<exists>r. decomposeDomain xyz connectivity M partitionType = Inr r) \<longleftrightarrow> partitionType = 1)) \<and>
   (xyz \<noteq> [] \<and> partitionType = 1 \<longrightarrow>
      (\<exists>part. decomposeDomain xyz connectivity M partitionType = Inr (part, nearest_neighbours M) \<and>
              length part = length xyz)) \<and>
   (partitionType \<noteq> 1 \<longrightarrow>
      decomposeDomain xyz connectivity M partitionType = Inl UnboundLocalError)"
proof (intro conjI impI)
  assume ne: "xyz \<noteq> []"
  show "(\<exists>r. decomposeDomain xyz connectivity M partitionType = Inr r) \<longleftrightarrow> partitionType = 1"
  proof
    assume "\<exists>r. decomposeDomain xyz connectivity M partitionType = Inr r"
    then show "partitionType = 1"
      by (cases "partitionType = 1") (simp_all add: decomposeDomain_unbound)
  next
    assume "partitionType = 1"
    then show "\<exists>r. decomposeDomain xyz connectivity M partitionType = Inr r"
      using decomposeDomain_returns [OF ne, of connectivity M] by auto
  qed
next
  assume "xyz \<noteq> [] \<and> partitionType = 1"
  then show "\<exists>part. decomposeDomain xyz connectivity M partitionType =
      Inr (part, nearest_neighbours M) \<and> length part = length xyz"
    using decomposeDomain_returns [of xyz connectivity M] by auto
next
  assume "partitionType \<noteq> 1"
  then show "decomposeDomain xyz connectivity M partitionType = Inl UnboundLocalError"
    by (rule decomposeDomain_unbound)
qed

theorem decomposeDomain_partitionType_witness:
  "decomposeDomain [(0, 0, 0), (1, 0, 0), (2, 0, 0)] () 2 1 =
     Inr ([Fin 0, Fin 0, Fin 1], [[1], [0]]) \<and>
   decomposeDomain [(0, 0, 0), (1, 0, 0), (2, 0, 0)] () 2 2 = Inl UnboundLocalError"
proof -
  have ne: "[(0, 0, 0), (1, 0, 0), (2, 0, 0) :: vec3] \<noteq> []" by simp
  have two: "(2::int) \<noteq> 1" by simp
  from decomposeDomain_partitionType [of "[(0, 0, 0), (1, 0, 0), (2, 0, 0)]" "()" 2 2] two
  have err: "decomposeDomain [(0, 0, 0), (1, 0, 0), (2, 0, 0)] () 2 2 = Inl UnboundLocalError"
    by blast
  have nn: "nearest_neighbours 2 = [[1], [0]]"
    by (simp add: nearest_neighbours_def upto.simps)
  have "decomposeDomain [(0, 0, 0), (1, 0, 0), (2, 0, 0)] () 2 1 =
          Inr ([Fin 0, Fin 0, Fin 1], [[1], [0]])"
    by (simp add: decomposeDomain_def np_amax_def Let_def vx_def nn)
  with err show ?thesis by simp
qed

text \<open>
  The claim as stated fails on an array without rows: with \<open>partitionType = 1\<close> the maximum
  of the empty column raises ValueError and no pair is returned.
\<close>

theorem decomposeDomain_empty_counterexample:
  "\<not> ((\<exists>r. decomposeDomain [] () 2 1 = Inr r) \<longleftrightarrow> (1::int) = 1)"
  by (simp add: decomposeDomain_def np_amax_def)

section \<open>Properties of incrementLoad and of __call__\<close>

text \<open>
  C8. In each of the twelve classes that define it, \<open>incrementLoad(model, load_scale)\<close>
  changes at most the attribute \<open>h_force_load_scale\<close>: the object after the call is the
  object before it with that one attribute set. With no force-boundary node the object is
  unchanged; otherwise the attribute is \<open>load_scale\<close>. No kernel is run: the method is
  not handed the program.
\<close>

theorem incrementLoad_frame:
  "(\<exists>v. incrementLoad m load_scale self = self\<lparr>h_force_load_scale := v\<rparr>) \<and>
   (num_force_bc_nodes m = 0 \<longrightarrow> incrementLoad m load_scale self = self) \<and>
   (num_force_bc_nodes m \<noteq> 0 \<longrightarrow>
      incrementLoad m load_scale self = self\<lparr>h_force_load_scale := load_scale\<rparr>)"
proof (intro conjI impI)
  show "\<exists>v. incrementLoad m load_scale self = self\<lparr>h_force_load_scale := v\<rparr>"
  proof (cases "num_force_bc_nodes m = 0")
    case True
    then have "incrementLoad m load_scale self = self\<lparr>h_force_load_scale := h_force_load_scale self\<rparr>"
      by (simp add: incrementLoad_def)
    then show ?thesis by blast
  next
    case False
    then have "incrementLoad m load_scale self = self\<lparr>h_force_load_scale := load_scale\<rparr>"
      by (simp add: incrementLoad_def)
    then show ?thesis by blast
  qed
qed (simp_all add: incrementLoad_def)

theorem incrementLoad_frame_witness:
  "num_force_bc_nodes two_nodes \<noteq> 0 \<and>
   h_force_load_scale (incrementLoad two_nodes 3 zero_memory) = 3 \<and>
   d_horizons (incrementLoad two_nodes 3 zero_memory) = d_horizons zero_memory \<and>
   incrementLoad (two_nodes\<lparr>num_force_bc_nodes := 0\<rparr>) 3 zero_memory = zero_memory"
proof -
  have a: "num_force_bc_nodes two_nodes \<noteq> 0" by (simp add: two_nodes_def)
  have b: "num_force_bc_nodes (two_nodes\<lparr>num_force_bc_nodes := 0\<rparr>) = 0" by simp
  from incrementLoad_frame [of two_nodes 3 zero_memory] a
  have c: "incrementLoad two_nodes 3 zero_memory = zero_memory\<lparr>h_force_load_scale := 3\<rparr>"
    by blast
  from incrementLoad_frame [of "two_nodes\<lparr>num_force_bc_nodes := 0\<rparr>" 3 zero_memory] b
  have d: "incrementLoad (two_nodes\<lparr>num_force_bc_nodes := 0\<rparr>) 3 zero_memory = zero_memory"
    by blast
  show ?thesis using a c d by simp
qed

text \<open>
  C9, on the code. The \<open>__call__\<close> of an OpenCL class performs no step: the object is
  unchanged and the value returned is \<open>None\<close>, no displacement array.
\<close>

theorem opencl_call_is_stub:
  "fst (opencl_call self) = self \<and> snd (opencl_call self) = None"
  by (simp add: opencl_call_def)

section \<open>Properties of write\<close>

lemma tip_loop_sum:
  assumes "\<forall>i\<in>set is. i < length tts \<and> i < length disp \<and> i < length force"
  shows "tip_loop tts disp force is (tmp, d, f) =
           Inr (tmp + length (filter (\<lambda>i. tts ! i = 1) is),
                d + sum_list (map (\<lambda>i. vz (disp ! i)) (filter (\<lambda>i. tts ! i = 1) is)),
                f + sum_list (map (\<lambda>i. vz (force ! i)) (filter (\<lambda>i. tts ! i = 1) is)))"
  using assms
proof (induction "is" arbitrary: tmp d f)
  case Nil
  then show ?case by simp
next
  case (Cons i "is")
  then show ?case by (simp add: add.assoc)
qed

lemma tip_diagnostics_value:
  assumes "n \<le> length tts" and "n \<le> length disp" and "n \<le> length force"
  shows "tip_diagnostics n tts disp force =
           Inr (if tip_nodes n tts \<noteq> [] then Some (tip_mean (tip_nodes n tts) disp) else None,
                tip_sum (tip_nodes n tts) force)"
proof -
  have "\<forall>i\<in>set [0..<n]. i < length tts \<and> i < length disp \<and> i < length force"
    using assms by auto
  from tip_loop_sum [OF this, of 0 0 0]
  show ?thesis
    by (simp add: tip_diagnostics_def tip_nodes_def tip_mean_def tip_sum_def)
qed

lemma EulerCromer_write_value:
  assumes "nnodes m \<le> length (h_tip_types self)" and "nnodes m \<le> length (d_un self)"
    and "nnodes m \<le> length (d_uddn self)"
  shows "\<exists>s. EulerCromer_write P m self =
           Inr (s, damage_of P (d_horizons self),
                (if tip_nodes (nnodes m) (h_tip_types self) \<noteq> []
                 then Some (tip_mean (tip_nodes (nnodes m) (h_tip_types self)) (d_un self)) else None),
                tip_sum (tip_nodes (nnodes m) (h_tip_types self)) (d_uddn self))"
  using assms by (simp add: EulerCromer_write_def Let_def tip_diagnostics_value)

lemma EulerOpenCL_write_value:
  assumes "nnodes m \<le> length (h_tip_types self)" and "nnodes m \<le> length (d_un self)"
    and "nnodes m \<le> length (d_udn1 self)"
  shows "\<exists>s. EulerOpenCL_write P m self =
           Inr (s, damage_of P (d_horizons self),
                (if tip_nodes (nnodes m) (h_tip_types self) \<noteq> []
                 then Some (tip_mean (tip_nodes (nnodes m) (h_tip_types self)) (d_un self)) else None),
                tip_sum (tip_nodes (nnodes m) (h_tip_types self)) (d_udn1 self))"
  using assms by (simp add: EulerOpenCL_write_def Let_def tip_diagnostics_value)

lemma EulerOpenCLOptimised_write_value:
  assumes "nnodes m \<le> length (h_tip_types self)" and "nnodes m \<le> length (d_un self)"
    and "nnodes m \<le> length (d_udn self)"
  shows "\<exists>s. EulerOpenCLOptimised_write P m self =
           Inr (s, damage_of P (d_horizons self),
                (if tip_nodes (nnodes m) (h_tip_types self) \<noteq> []
                 then Some (tip_mean (tip_nodes (nnodes m) (h_tip_types self)) (d_un self)) else None),
                tip_sum (tip_nodes (nnodes m) (h_tip_types self)) (d_udn self))"
  using assms by (simp add: EulerOpenCLOptimised_write_def Let_def tip_diagnostics_value)

lemma VelocityVerletOpenCL_write_value:
  assumes "nnodes m \<le> length (h_tip_types self)" and "nnodes m \<le> length (d_un self)"
  shows "\<exists>s. VelocityVerletOpenCL_write P m self =
           Inr (s, damage_of P (d_horizons self),
                (if tip_nodes (nnodes m) (h_tip_types self) \<noteq> []
                 then Some (tip_mean (tip_nodes (nnodes m) (h_tip_types self)) (d_un self)) else None))"
  using assms by (simp add: VelocityVerletOpenCL_write_def Let_def tip_diagnostics_value)

lemma RK4_write_value:
  assumes "nnodes m \<le> length (h_tip_types self)" and "nnodes m \<le> length (d_un self)"
    and "nnodes m \<le> length (d_k1dn self)"
  shows "\<exists>s. RK4_write P m self =
           Inr (s, damage_of P (d_horizons self),
                (if tip_nodes (nnodes m) (h_tip_types self) \<noteq> []
                 then Some (tip_mean (tip_nodes (nnodes m) (h_tip_types self)) (d_un self)) else None),
                tip_sum (tip_nodes (nnodes m) (h_tip_types self)) (d_k1dn self))"
  using assms by (simp add: RK4_write_def Let_def tip_diagnostics_value)

lemma DormandPrince_write_value:
  assumes "nnodes m \<le> length (h_tip_types self)" and "nnodes m \<le> length (d_un5 self)"
    and "nnodes m \<le> length (d_k1dn self)"
  shows "\<exists>s. DormandPrince_write P m self =
           Inr (s, damage_of P (d_horizons self),
                (if tip_nodes (nnodes m) (h_tip_types self) \<noteq> []
                 then Some (tip_mean (tip_nodes (nnodes m) (h_tip_types self)) (d_un5 self)) else None),
                tip_sum (tip_nodes (nnodes m) (h_tip_types self)) (d_k1dn self))"
  using assms by (simp add: DormandPrince_write_def Let_def tip_diagnostics_value)

lemma HeunEuler_write_value:
  assumes "nnodes m \<le> length (h_tip_types self)" and "nnodes m \<le> length (d_un2 self)"
    and "nnodes m \<le> length (d_k1dn self)"
  shows "\<exists>s. HeunEuler_write P m self =
           Inr (s, damage_of P (d_horizons self),
                (if tip_nodes (nnodes m) (h_tip_types self) \<noteq> []
                 then Some (tip_mean (tip_nodes (nnodes m) (h_tip_types self)) (d_un2 self)) else None),
                tip_sum (tip_nodes (nnodes m) (h_tip_types self)) (d_k1dn self))"
  using assms by (simp add: HeunEuler_write_def Let_def tip_diagnostics_value)

text \<open>
  C5, as the code has it. For a call of \<open>write\<close> on an object with a tip flag and a row of
  each node array for every node, and with at least one tip node: the tip displacement
  returned is the arithmetic mean of the third displacement component over the tip nodes;
  the tip force returned is the sum (not the mean) of the third component of the force
  buffer over the tip nodes. This is so in the eleven classes whose \<open>write\<close> returns both;
  VelocityVerletOpenCL.write returns the tip displacement alone, and
  EulerStochastic.write returns neither.
\<close>

theorem write_tip_mean_and_sum:
  assumes "well_sized m self" and "tip_nodes (nnodes m) (h_tip_types self) = tips"
    and "tips \<noteq> []"
  shows "(\<exists>s. EulerCromer_write P m self =
            Inr (s, damage_of P (d_horizons self), Some (tip_mean tips (d_un self)), tip_sum tips (d_uddn self))) \<and>
         (\<exists>s. EulerCromerOptimised_write P m self =
            Inr (s, damage_of P (d_horizons self), Some (tip_mean tips (d_un self)), tip_sum tips (d_uddn self))) \<and>
         (\<exists>s. EulerOpenCL_write P m self =
            Inr (s, damage_of P (d_horizons self), Some (tip_mean tips (d_un self)), tip_sum tips (d_udn1 self))) \<and>
         (\<exists>s. EulerOpenCLOptimised_write P m self =
            Inr (s, damage_of P (d_horizons self), Some (tip_mean tips (d_un self)), tip_sum tips (d_udn self))) \<and>
         (\<exists>s. EulerOpenCLOptimisedLumped_write P m self =
            Inr (s, damage_of P (d_horizons self), Some (tip_mean tips (d_un self)), tip_sum tips (d_udn self))) \<and>
         (\<exists>s. RK4_write P m self =
            Inr (s, damage_of P (d_horizons self), Some (tip_mean tips (d_un self)), tip_sum tips (d_k1dn self))) \<and>
         (\<exists>s. RK4Optimised_write P m self =
            Inr (s, damage_of P (d_horizons self), Some (tip_mean tips (d_un self)), tip_sum tips (d_k1dn self))) \<and>
         (\<exists>s. DormandPrince_write P m self =
            Inr (s, damage_of P (d_horizons self), Some (tip_mean tips (d_un5 self)), tip_sum tips (d_k1dn self))) \<and>
         (\<exists>s. DormandPrinceOptimised_write P m self =
            Inr (s, damage_of P (d_horizons self), Some (tip_mean tips (d_un5 self)), tip_sum tips (d_k1dn self))) \<and>
         (\<exists>s. HeunEuler_write P m self =
            Inr (s, damage_of P (d_horizons self), Some (tip_mean tips (d_un2 self)), tip_sum tips (d_k1dn self))) \<and>
         (\<exists>s. HeunEulerOptimised_write P m self =
            Inr (s, damage_of P (d_horizons self), Some (tip_mean tips (d_un2 self)), tip_sum tips (d_k1dn self))) \<and>
         (\<exists>s. VelocityVerletOpenCL_write P m self =
            Inr (s, damage_of P (d_horizons self), Some (tip_mean tips (d_un self))))"
proof -
  have sz: "nnodes m \<le> length (h_tip_types self)" "nnodes m \<le> length (d_un self)"
    "nnodes m \<le> length (d_un2 self)" "nnodes m \<le> length (d_un5 self)"
    "nnodes m \<le> length (d_udn self)" "nnodes m \<le> length (d_udn1 self)"
    "nnodes m \<le> length (d_uddn self)" "nnodes m \<le> length (d_k1dn self)"
    using assms(1) by (simp_all add: well_sized_def)
  have tips: "tip_nodes (nnodes m) (h_tip_types self) \<noteq> []"
    using assms(2,3) by simp
  have c1: "\<exists>s. EulerCromer_write P m self =
      Inr (s, damage_of P (d_horizons self), Some (tip_mean tips (d_un self)), tip_sum tips (d_uddn self))"
    using EulerCromer_write_value [OF sz(1) sz(2) sz(7), of P] tips assms(2) by simp
  have c2: "\<exists>s. EulerOpenCL_write P m self =
      Inr (s, damage_of P (d_horizons self), Some (tip_mean tips (d_un self)), tip_sum tips (d_udn1 self))"
    using EulerOpenCL_write_value [OF sz(1) sz(2) sz(6), of P] tips assms(2) by simp
  have c3: "\<exists>s. EulerOpenCLOptimised_write P m self =
      Inr (s, damage_of P (d_horizons self), Some (tip_mean tips (d_un self)), tip_sum tips (d_udn self))"
    using EulerOpenCLOptimised_write_value [OF sz(1) sz(2) sz(5), of P] tips assms(2) by simp
  have c4: "\<exists>s. RK4_write P m self =
      Inr (s, damage_of P (d_horizons self), Some (tip_mean tips (d_un self)), tip_sum tips (d_k1dn self))"
    using RK4_write_value [OF sz(1) sz(2) sz(8), of P] tips assms(2) by simp
  have c5: "\<exists>s. DormandPrince_write P m self =
      Inr (s, damage_of P (d_horizons self), Some (tip_mean tips (d_un5 self)), tip_sum tips (d_k1dn self))"
    using DormandPrince_write_value [OF sz(1) sz(4) sz(8), of P] tips assms(2) by simp
  have c6: "\<exists>s. HeunEuler_write P m self =
      Inr (s, damage_of P (d_horizons self), Some (tip_mean tips (d_un2 self)), tip_sum tips (d_k1dn self))"
    using HeunEuler_write_value [OF sz(1) sz(3) sz(8), of P] tips assms(2) by simp
  have c7: "\<exists>s. VelocityVerletOpenCL_write P m self =
      Inr (s, damage_of P (d_horizons self), Some (tip_mean tips (d_un self)))"
    using VelocityVerletOpenCL_write_value [OF sz(1) sz(2), of P] tips assms(2) by simp
  show ?thesis
    using c1 c2 c3 c4 c5 c6 c7
    by (simp add: EulerCromerOptimised_write_def EulerOpenCLOptimisedLumped_write_def
        RK4Optimised_write_def DormandPrinceOptimised_write_def HeunEulerOptimised_write_def)
qed

lemma tip_example_sized: "well_sized two_nodes tip_example"
  by (simp add: well_sized_def two_nodes_def tip_example_def init_buffers_def zero_memory_def zeros_def)

lemma tip_example_tips: "tip_nodes (nnodes two_nodes) (h_tip_types tip_example) = [0, 1]"
  by (simp add: tip_nodes_def two_nodes_def tip_example_def init_buffers_def upt_rec)

lemma tip_example_values:
  "tip_mean (tip_nodes (nnodes two_nodes) (h_tip_types tip_example)) (d_un tip_example) = 2"
  "tip_sum (tip_nodes (nnodes two_nodes) (h_tip_types tip_example)) (d_uddn tip_example) = 6"
  "tip_mean (tip_nodes (nnodes two_nodes) (h_tip_types tip_example)) (d_uddn tip_example) = 3"
  "damage_of heun_program (d_horizons tip_example) = [0, 0]"
  unfolding tip_example_tips
  by (simp_all add: tip_mean_def tip_sum_def tip_example_def init_buffers_def vz_def
      heun_program_def example_damage_def two_nodes_def)

theorem write_tip_mean_and_sum_witness:
  "well_sized two_nodes tip_example \<and>
   tip_nodes (nnodes two_nodes) (h_tip_types tip_example) \<noteq> [] \<and>
   (\<exists>s. EulerCromer_write heun_program two_nodes tip_example = Inr (s, [0, 0], Some 2, 6))"
proof -
  have ne: "tip_nodes (nnodes two_nodes) (h_tip_types tip_example) \<noteq> []"
    unfolding tip_example_tips by simp
  from write_tip_mean_and_sum [OF tip_example_sized refl ne, of heun_program]
  have "\<exists>s. EulerCromer_write heun_program two_nodes tip_example =
      Inr (s, damage_of heun_program (d_horizons tip_example),
           Some (tip_mean (tip_nodes (nnodes two_nodes) (h_tip_types tip_example)) (d_un tip_example)),
           tip_sum (tip_nodes (nnodes two_nodes) (h_tip_types tip_example)) (d_uddn tip_example))"
    by blast
  then have "\<exists>s. EulerCromer_write heun_program two_nodes tip_example = Inr (s, [0, 0], Some 2, 6)"
    unfolding tip_example_values .
  with tip_example_sized ne show ?thesis by blast
qed

text \<open>
  The claim as stated fails for the tip force: with the force components 2 and 4 on the
  two tip nodes, \<open>write\<close> returns 6 and not their mean 3.
\<close>

theorem write_tip_force_counterexample:
  "\<not> (\<exists>s d td. EulerCromer_write heun_program two_nodes tip_example =
         Inr (s, d, td, tip_mean (tip_nodes (nnodes two_nodes) (h_tip_types tip_example))
                          (d_uddn tip_example)))"
proof -
  have sz: "nnodes two_nodes \<le> length (h_tip_types tip_example)"
    "nnodes two_nodes \<le> length (d_un tip_example)"
    "nnodes two_nodes \<le> length (d_uddn tip_example)"
    using tip_example_sized by (simp_all add: well_sized_def)
  from EulerCromer_write_value [OF sz, of heun_program]
  obtain s d td where "EulerCromer_write heun_program two_nodes tip_example =
      Inr (s, d, td, tip_sum (tip_nodes (nnodes two_nodes) (h_tip_types tip_example)) (d_uddn tip_example))"
    by blast
  then have "EulerCromer_write heun_program two_nodes tip_example = Inr (s, d, td, 6)"
    unfolding tip_example_values .
  then show ?thesis
    unfolding tip_example_values by simp
qed

text \<open>
  C7, as the code has it. For a call of \<open>write\<close> on an object with no tip node: the tip
  displacement returned is \<open>None\<close> and no division is made; the tip force returned is the
  number 0, the empty sum, and not an absence value. VelocityVerletOpenCL.write returns
  \<open>None\<close> for the tip displacement, its only diagnostic.
\<close>

theorem write_without_tip_nodes:
  assumes "well_sized m self" and "tip_nodes (nnodes m) (h_tip_types self) = []"
  shows "(\<exists>s. EulerCromer_write P m self = Inr (s, damage_of P (d_horizons self), None, 0)) \<and>
         (\<exists>s. EulerCromerOptimised_write P m self = Inr (s, damage_of P (d_horizons self), None, 0)) \<and>
         (\<exists>s. EulerOpenCL_write P m self = Inr (s, damage_of P (d_horizons self), None, 0)) \<and>
         (\<exists>s. EulerOpenCLOptimised_write P m self = Inr (s, damage_of P (d_horizons self), None, 0)) \<and>
         (\<exists>s. EulerOpenCLOptimisedLumped_write P m self = Inr (s, damage_of P (d_horizons self), None, 0)) \<and>
         (\<exists>s. RK4_write P m self = Inr (s, damage_of P (d_horizons self), None, 0)) \<and>
         (\<exists>s. RK4Optimised_write P m self = Inr (s, damage_of P (d_horizons self), None, 0)) \<and>
         (\<exists>s. DormandPrince_write P m self = Inr (s, damage_of P (d_horizons self), None, 0)) \<and>
         (\<exists>s. DormandPrinceOptimised_write P m self = Inr (s, damage_of P (d_horizons self), None, 0)) \<and>
         (\<exists>s. HeunEuler_write P m self = Inr (s, damage_of P (d_horizons self), None, 0)) \<and>
         (\<exists>s. HeunEulerOptimised_write P m self = Inr (s, damage_of P (d_horizons self), None, 0)) \<and>
         (\<exists>s. VelocityVerletOpenCL_write P m self = Inr (s, damage_of P (d_horizons self), None))"
proof -
  have sz: "nnodes m \<le> length (h_tip_types self)" "nnodes m \<le> length (d_un self)"
    "nnodes m \<le> length (d_un2 self)" "nnodes m \<le> length (d_un5 self)"
    "nnodes m \<le> length (d_udn self)" "nnodes m \<le> length (d_udn1 self)"
    "nnodes m \<le> length (d_uddn self)" "nnodes m \<le> length (d_k1dn self)"
    using assms(1) by (simp_all add: well_sized_def)
  note none = assms(2)
  have c1: "\<exists>s. EulerCromer_write P m self = Inr (s, damage_of P (d_horizons self), None, 0)"
    using EulerCromer_write_value [OF sz(1) sz(2) sz(7), of P] none by (simp add: tip_sum_def)
  have c2: "\<exists>s. EulerOpenCL_write P m self = Inr (s, damage_of P (d_horizons self), None, 0)"
    using EulerOpenCL_write_value [OF sz(1) sz(2) sz(6), of P] none by (simp add: tip_sum_def)
  have c3: "\<exists>s. EulerOpenCLOptimised_write P m self = Inr (s, damage_of P (d_horizons self), None, 0)"
    using EulerOpenCLOptimised_write_value [OF sz(1) sz(2) sz(5), of P] none by (simp add: tip_sum_def)
  have c4: "\<exists>s. RK4_write P m self = Inr (s, damage_of P (d_horizons self), None, 0)"
    using RK4_write_value [OF sz(1) sz(2) sz(8), of P] none by (simp add: tip_sum_def)
  have c5: "\<exists>s. DormandPrince_write P m self = Inr (s, damage_of P (d_horizons self), None, 0)"
    using DormandPrince_write_value [OF sz(1) sz(4) sz(8), of P] none by (simp add: tip_sum_def)
  have c6: "\<exists>s. HeunEuler_write P m self = Inr (s, damage_of P (d_horizons self), None, 0)"
    using HeunEuler_write_value [OF sz(1) sz(3) sz(8), of P] none by (simp add: tip_sum_def)
  have c7: "\<exists>s. VelocityVerletOpenCL_write P m self = Inr (s, damage_of P (d_horizons self), None)"
    using VelocityVerletOpenCL_write_value [OF sz(1) sz(2), of P] none by simp
  show ?thesis
    using c1 c2 c3 c4 c5 c6 c7
    by (simp add: EulerCromerOptimised_write_def EulerOpenCLOptimisedLumped_write_def
        RK4Optimised_write_def DormandPrinceOptimised_write_def HeunEulerOptimised_write_def)
qed

lemma no_tip_example_sized: "well_sized no_tip_model no_tip_example"
  by (simp add: well_sized_def no_tip_model_def two_nodes_def no_tip_example_def init_buffers_def
      zero_memory_def zeros_def)

lemma no_tip_example_tips:
  "tip_nodes (nnodes no_tip_model) (h_tip_types no_tip_example) = []"
  by (simp add: tip_nodes_def no_tip_model_def two_nodes_def no_tip_example_def init_buffers_def upt_rec)

lemma no_tip_example_damage: "damage_of heun_program (d_horizons no_tip_example) = [0, 0]"
  by (simp add: heun_program_def example_damage_def no_tip_example_def init_buffers_def
      no_tip_model_def two_nodes_def)

theorem write_without_tip_nodes_witness:
  "well_sized no_tip_model no_tip_example \<and>
   tip_nodes (nnodes no_tip_model) (h_tip_types no_tip_example) = [] \<and>
   (\<exists>s. HeunEuler_write heun_program no_tip_model no_tip_example = Inr (s, [0, 0], None, 0))"
proof -
  from write_without_tip_nodes [OF no_tip_example_sized no_tip_example_tips, of heun_program]
  have "\<exists>s. HeunEuler_write heun_program no_tip_model no_tip_example =
      Inr (s, damage_of heun_program (d_horizons no_tip_example), None, 0)"
    by blast
  then have "\<exists>s. HeunEuler_write heun_program no_tip_model no_tip_example = Inr (s, [0, 0], None, 0)"
    unfolding no_tip_example_damage .
  with no_tip_example_sized no_tip_example_tips show ?thesis by blast
qed

text \<open>
  The claim as stated fails for the tip force: with no tip node, EulerCromer.write returns
  the number 0 for it, next to \<open>None\<close> for the tip displacement.
\<close>

theorem write_without_tip_nodes_counterexample:
  "\<exists>s d. EulerCromer_write heun_program no_tip_model no_tip_example = Inr (s, d, None, 0)"
proof -
  have sz: "nnodes no_tip_model \<le> length (h_tip_types no_tip_example)"
    "nnodes no_tip_model \<le> length (d_un no_tip_example)"
    "nnodes no_tip_model \<le> length (d_uddn no_tip_example)"
    using no_tip_example_sized by (simp_all add: well_sized_def)
  from EulerCromer_write_value [OF sz, of heun_program]
  show ?thesis
    unfolding no_tip_example_tips by (auto simp: tip_sum_def)
qed

section \<open>Properties of the regression driver\<close>

lemma fold_update_length:
  "length (fold (\<lambda>i a. a[i := g a i]) idx u) = length u"
  by (induction idx arbitrary: u) simp_all

lemma lateral_fold_nth:
  "j < length u \<Longrightarrow>
   fold (\<lambda>i a. a[i := (vx (a ! i), 0, 0)]) idx u ! j =
     (if j \<in> set idx then (vx (u ! j), 0, 0) else u ! j)"
proof (induction idx arbitrary: u)
  case Nil
  then show ?case by simp
next
  case (Cons i idx)
  have len: "j < length (u[i := (vx (u ! i), 0, 0)])" using Cons.prems by simp
  show ?case
    using Cons.IH [OF len] Cons.prems
    by (cases "j = i") (simp_all add: vx_def)
qed

lemma x_fold_nth:
  "j < length u \<Longrightarrow>
   fold (\<lambda>i a. a[i := (c, vy (a ! i), vz (a ! i))]) idx u ! j =
     (if j \<in> set idx then (c, vy (u ! j), vz (u ! j)) else u ! j)"
proof (induction idx arbitrary: u)
  case Nil
  then show ?case by simp
next
  case (Cons i idx)
  have len: "j < length (u[i := (c, vy (u ! i), vz (u ! i))])" using Cons.prems by simp
  show ?case
    using Cons.IH [OF len] Cons.prems
    by (cases "j = i") (simp_all add: vy_def vz_def)
qed

lemma set_lateral_zero_Inr:
  assumes "set_lateral_zero idx u = Inr u'"
  shows "length u' = length u" and "\<forall>i\<in>set idx. i < length u"
    and "\<forall>j<length u. u' ! j = (if j \<in> set idx then (vx (u ! j), 0, 0) else u ! j)"
proof -
  have ok: "list_all (\<lambda>i. i < length u) idx"
    using assms by (simp add: set_lateral_zero_def split: if_splits)
  have u': "u' = fold (\<lambda>i a. a[i := (vx (a ! i), 0, 0)]) idx u"
    using assms ok by (simp add: set_lateral_zero_def)
  show "length u' = length u" unfolding u' by (rule fold_update_length)
  show "\<forall>i\<in>set idx. i < length u" using ok by (simp add: list_all_iff)
  show "\<forall>j<length u. u' ! j = (if j \<in> set idx then (vx (u ! j), 0, 0) else u ! j)"
    unfolding u' using lateral_fold_nth by blast
qed

lemma set_x_Inr:
  assumes "set_x idx c k u = Inr u'"
  shows "length u' = length u" and "\<forall>i\<in>set idx. i < length u"
    and "\<forall>j<length u. u' ! j = (if j \<in> set idx then (c, vy (u ! j), vz (u ! j)) else u ! j)"
proof -
  have ok: "list_all (\<lambda>i. i < length u) idx"
    using assms by (simp add: set_x_def split: if_splits)
  have u': "u' = fold (\<lambda>i a. a[i := (c, vy (a ! i), vz (a ! i))]) idx u"
    using assms ok by (simp add: set_x_def split: if_splits)
  show "length u' = length u" unfolding u' by (rule fold_update_length)
  show "\<forall>i\<in>set idx. i < length u" using ok by (simp add: list_all_iff)
  show "\<forall>j<length u. u' ! j = (if j \<in> set idx then (c, vy (u ! j), vz (u ! j)) else u ! j)"
    unfolding u' using x_fold_nth by blast
qed

lemma regression_step_boundary:
  assumes step: "regression_step physics lhs rhs integrator t (ma, u, d) = Inr (mb, u', d')"
    and disjoint: "set lhs \<inter> set rhs = {}"
  shows "(\<forall>i\<in>set lhs. u' ! i = (- 0.5 * real t * load_rate, 0, 0)) \<and>
         (\<forall>i\<in>set rhs. u' ! i = (0.5 * real t * load_rate, 0, 0))"
proof -
  obtain m2 dmg f where ph: "physics ma u = (m2, dmg, f)"
    by (cases "physics ma u") auto
  from step ph obtain u1 u2 u3 u4 where
    u2: "set_lateral_zero lhs u1 = Inr u2" and
    u3: "set_lateral_zero rhs u2 = Inr u3" and
    u4: "set_x lhs (- 0.5 * real t * load_rate) (length rhs) u3 = Inr u4" and
    u5: "set_x rhs (0.5 * real t * load_rate) (length rhs) u4 = Inr u'"
    by (auto simp: regression_step_def split: sum.splits)
  note L2 = set_lateral_zero_Inr [OF u2]
  note L3 = set_lateral_zero_Inr [OF u3]
  note L4 = set_x_Inr [OF u4]
  note L5 = set_x_Inr [OF u5]
  have len: "length u2 = length u1" "length u3 = length u1" "length u4 = length u1"
    using L2(1) L3(1) L4(1) by simp_all
  show ?thesis
  proof (intro conjI ballI)
    fix i assume i: "i \<in> set lhs"
    then have ir: "i \<notin> set rhs" using disjoint by auto
    have il: "i < length u1" using L2(2) i by blast
    have "u2 ! i = (vx (u1 ! i), 0, 0)" using L2(3) il i by simp
    then have "u3 ! i = (vx (u1 ! i), 0, 0)" using L3(3) il ir len by simp
    then have "u4 ! i = (- 0.5 * real t * load_rate, 0, 0)"
      using L4(3) il i len by (simp add: vy_def vz_def)
    then show "u' ! i = (- 0.5 * real t * load_rate, 0, 0)"
      using L5(3) il ir len by simp
  next
    fix i assume i: "i \<in> set rhs"
    have il: "i < length u1" using L3(2) i len by simp
    have "u3 ! i = (vx (u2 ! i), 0, 0)" using L3(3) il i len by simp
    then have "vy (u4 ! i) = 0 \<and> vz (u4 ! i) = 0"
      using L4(3) il len by (simp add: vy_def vz_def)
    then show "u' ! i = (0.5 * real t * load_rate, 0, 0)"
      using L5(3) il i len by simp
  qed
qed

lemma simple_square_disjoint:
  "set (simple_square_lhs 0.1 xyz) \<inter> set (simple_square_rhs 0.1 xyz) = {}"
  by (auto simp: simple_square_lhs_def simple_square_rhs_def)

lemma simple_square_bounds:
  "\<forall>i\<in>set (simple_square_lhs h xyz). i < length xyz"
  "\<forall>i\<in>set (simple_square_rhs h xyz). i < length xyz"
  by (auto simp: simple_square_lhs_def simple_square_rhs_def)

lemma regression_step_returns:
  assumes shape: "length u = n" "length (snd (snd (physics ma u))) = n"
    and bounds: "\<forall>i\<in>set lhs. i < n" "\<forall>i\<in>set rhs. i < n"
    and sizes: "length lhs = length rhs \<or> length rhs = 1"
  shows "\<exists>mb u' d'. regression_step physics lhs rhs integrator t (ma, u, d) = Inr (mb, u', d') \<and>
           length u' = n"
proof -
  obtain m2 dmg f where ph: "physics ma u = (m2, dmg, f)"
    by (cases "physics ma u") auto
  have lf: "length f = n" using shape(2) ph by simp
  obtain u1 where u1: "Euler_call integrator u f = Inr u1" "length u1 = n"
    using shape(1) lf by (simp add: Euler_call_def np_add_def mul_scalar_def scalar_mul_def)
  have okl: "\<And>v. length v = n \<Longrightarrow> list_all (\<lambda>i. i < length v) lhs"
    using bounds(1) by (simp add: list_all_iff)
  have okr: "\<And>v. length v = n \<Longrightarrow> list_all (\<lambda>i. i < length v) rhs"
    using bounds(2) by (simp add: list_all_iff)
  obtain u2 where u2: "set_lateral_zero lhs u1 = Inr u2" "length u2 = n"
    using okl [OF u1(2)] u1(2) by (simp add: set_lateral_zero_def fold_update_length)
  obtain u3 where u3: "set_lateral_zero rhs u2 = Inr u3" "length u3 = n"
    using okr [OF u2(2)] u2(2) by (simp add: set_lateral_zero_def fold_update_length)
  obtain u4 where u4: "set_x lhs (- 0.5 * real t * load_rate) (length rhs) u3 = Inr u4" "length u4 = n"
    using okl [OF u3(2)] u3(2) sizes by (auto simp: set_x_def fold_update_length)
  obtain u5 where u5: "set_x rhs (0.5 * real t * load_rate) (length rhs) u4 = Inr u5" "length u5 = n"
    using okr [OF u4(2)] u4(2) by (simp add: set_x_def fold_update_length)
  show ?thesis
    using ph u1 u2 u3 u4 u5 by (simp add: regression_step_def)
qed

lemma regression_loop_snoc:
  "regression_loop physics lhs rhs integrator (ts @ [t]) s =
     (case regression_loop physics lhs rhs integrator ts s of
        Inl e \<Rightarrow> Inl e
      | Inr s' \<Rightarrow> regression_step physics lhs rhs integrator t s')"
  by (induction ts arbitrary: s) (simp_all split: sum.splits)

text \<open>
  The rounds of the regression driver. \<open>Euler.__call__\<close> applies no boundary condition; the
  driver writes them after the integrator's update of the round: whatever the forces and
  the displacements before the round, a round that completes leaves the rows of the left
  boundary nodes at \<open>(-0.5 * t * load_rate, 0, 0)\<close> and the rows of the right ones at
  \<open>(0.5 * t * load_rate, 0, 0)\<close>. A round completes when the force array has a row per
  node and the two boundary columns have the same number of nodes (the value array of
  either assignment has \<open>len(rhs)\<close> entries). So the fixture, when it returns, returns the
  boundary rows of round 10.
\<close>

lemma regression_rounds_boundary:
  "(regression_step physics (simple_square_lhs 0.1 xyz) (simple_square_rhs 0.1 xyz)
        integrator t (ma, u, d) = Inr (mb, u', d') \<longrightarrow>
      (\<forall>i\<in>set (simple_square_lhs 0.1 xyz). u' ! i = (- 0.5 * real t * load_rate, 0, 0)) \<and>
      (\<forall>i\<in>set (simple_square_rhs 0.1 xyz). u' ! i = (0.5 * real t * load_rate, 0, 0))) \<and>
   (length u = length xyz \<and> length (snd (snd (physics ma u))) = length xyz \<and>
    (length (simple_square_lhs 0.1 xyz) = length (simple_square_rhs 0.1 xyz) \<or>
     length (simple_square_rhs 0.1 xyz) = 1) \<longrightarrow>
      (\<exists>mc ub db. regression_step physics (simple_square_lhs 0.1 xyz)
          (simple_square_rhs 0.1 xyz) integrator t (ma, u, d) = Inr (mc, ub, db) \<and>
          length ub = length xyz)) \<and>
   (regression physics ma xyz = Inr (md, uc, dc) \<longrightarrow>
      (\<forall>i\<in>set (simple_square_lhs 0.1 xyz). uc ! i = (- 0.5 * 10 * load_rate, 0, 0)) \<and>
      (\<forall>i\<in>set (simple_square_rhs 0.1 xyz). uc ! i = (0.5 * 10 * load_rate, 0, 0)))"
proof (intro conjI impI)
  assume "regression_step physics (simple_square_lhs 0.1 xyz) (simple_square_rhs 0.1 xyz)
        integrator t (ma, u, d) = Inr (mb, u', d')"
  from regression_step_boundary [OF this simple_square_disjoint]
  show "\<forall>i\<in>set (simple_square_lhs 0.1 xyz). u' ! i = (- 0.5 * real t * load_rate, 0, 0)"
    and "\<forall>i\<in>set (simple_square_rhs 0.1 xyz). u' ! i = (0.5 * real t * load_rate, 0, 0)"
    by blast+
next
  assume a: "length u = length xyz \<and> length (snd (snd (physics ma u))) = length xyz \<and>
    (length (simple_square_lhs 0.1 xyz) = length (simple_square_rhs 0.1 xyz) \<or>
     length (simple_square_rhs 0.1 xyz) = 1)"
  show "\<exists>mc ub db. regression_step physics (simple_square_lhs 0.1 xyz)
          (simple_square_rhs 0.1 xyz) integrator t (ma, u, d) = Inr (mc, ub, db) \<and>
          length ub = length xyz"
    using regression_step_returns [of u "length xyz" physics ma
        "simple_square_lhs 0.1 xyz" "simple_square_rhs 0.1 xyz" integrator t d]
      a simple_square_bounds by blast
next
  assume r: "regression physics ma xyz = Inr (md, uc, dc)"
  have upt: "[1..<11] = [1..<10] @ [10::nat]" by (simp add: upt_rec)
  from r obtain s' where
    last: "regression_step physics (simple_square_lhs 0.1 xyz) (simple_square_rhs 0.1 xyz)
        (Euler_init 0.001 None) 10 s' = Inr (md, uc, dc)"
    unfolding regression_def upt regression_loop_snoc
    by (auto split: sum.splits)
  obtain ma ua da where s': "s' = (ma, ua, da)" by (cases s') auto
  from regression_step_boundary [OF last [unfolded s'] simple_square_disjoint]
  show "\<forall>i\<in>set (simple_square_lhs 0.1 xyz). uc ! i = (- 0.5 * 10 * load_rate, 0, 0)"
    and "\<forall>i\<in>set (simple_square_rhs 0.1 xyz). uc ! i = (0.5 * 10 * load_rate, 0, 0)"
    by simp_all
qed

lemma two_node_columns:
  "simple_square_lhs 0.1 [(0, 0, 0), (1, 0, 0)] = [0]"
  "simple_square_rhs 0.1 [(0, 0, 0), (1, 0, 0)] = [1]"
  by (simp_all add: simple_square_lhs_def simple_square_rhs_def upt_rec vx_def)

section \<open>Bond flags and frames of the kernel sequences\<close>

lemma CheckBonds_length: "length (CheckBonds hs un xs crit) = length hs"
  by (simp add: CheckBonds_def)

lemma CheckBonds_row_length:
  "i < length hs \<Longrightarrow> length (CheckBonds hs un xs crit ! i) = length (hs ! i)"
  by (simp add: CheckBonds_def)

lemma CheckBonds_nth:
  "i < length hs \<Longrightarrow> k < length (hs ! i) \<Longrightarrow>
   CheckBonds hs un xs crit ! i ! k =
     (if bond_fails un xs crit i k (hs ! i ! k) then - 1 else hs ! i ! k)"
  by (simp add: CheckBonds_def)

lemma still_broken_refl: "still_broken hs hs"
  by (simp add: still_broken_def list_all2_same list.rel_refl)

lemma still_broken_trans:
  "still_broken a b \<Longrightarrow> still_broken b c \<Longrightarrow> still_broken a c"
  unfolding still_broken_def
  by (auto simp: list_all2_conv_all_nth)

lemma still_broken_CheckBonds: "still_broken hs (CheckBonds hs un xs crit)"
  unfolding still_broken_def
  by (auto simp: list_all2_conv_all_nth CheckBonds_length CheckBonds_row_length CheckBonds_nth
      bond_fails_def)

lemma still_broken_broken:
  "still_broken hs hs' \<Longrightarrow> broken hs i k \<Longrightarrow> broken hs' i k"
  unfolding still_broken_def broken_def
  by (auto simp: list_all2_conv_all_nth)

lemma Let_inv: "I e \<Longrightarrow> (\<And>x. I x \<Longrightarrow> I (f x)) \<Longrightarrow> I (Let e f)"
  by simp

lemma bonds_kept_refl: "bonds_kept s s"
  by (simp add: bonds_kept_def still_broken_refl)

lemma bonds_kept_trans: "bonds_kept s x \<Longrightarrow> bonds_kept x y \<Longrightarrow> bonds_kept s y"
  by (auto simp: bonds_kept_def intro: still_broken_trans)

lemma bonds_kept_upd:
  "bonds_kept s x \<Longrightarrow> d_horizons y = d_horizons x \<Longrightarrow> h_horizons y = h_horizons x \<Longrightarrow>
   bonds_kept s y"
  by (simp add: bonds_kept_def)

lemma bonds_kept_force:
  "bonds_kept s x \<Longrightarrow> bonds_kept s (CalcBondForce_optimised P un x)"
  by (auto simp: bonds_kept_def CalcBondForce_optimised_def
      intro: still_broken_trans still_broken_CheckBonds)

lemma bonds_kept_check:
  "bonds_kept s x \<Longrightarrow> bonds_kept s (x\<lparr>d_horizons := CheckBonds (d_horizons x) u c r\<rparr>)"
  by (auto simp: bonds_kept_def intro: still_broken_trans still_broken_CheckBonds)

lemma stage_frame_refl: "stage_frame s s"
  by (simp add: stage_frame_def)

lemma stage_frame_upd: "stage_frame s x \<Longrightarrow> stage_frame x y \<Longrightarrow> stage_frame s y"
  by (simp add: stage_frame_def)

lemma stage_frame_force: "stage_frame x (CalcBondForce_adaptive P un x)"
  by (simp add: stage_frame_def CalcBondForce_adaptive_def)

lemma bonds_kept_adaptive_force:
  "bonds_kept s x \<Longrightarrow> bonds_kept s (CalcBondForce_adaptive P un x)"
  by (simp add: bonds_kept_def CalcBondForce_adaptive_def)

subsection \<open>The stages of the adaptive classes\<close>

lemma DormandPrince_stages_frame: "stage_frame s (DormandPrince_stages P s)"
  unfolding DormandPrince_stages_def
  apply (rule Let_inv [where I = "stage_frame s"])
   apply (simp add: stage_frame_def)
  apply (rule Let_inv [where I = "stage_frame s"],
      (erule stage_frame_upd, (simp add: stage_frame_def; fail)), erule thin_rl)+
  apply (erule stage_frame_upd, (simp add: stage_frame_def; fail))
  done

lemma DormandPrince_stages_horizons:
  "d_horizons (DormandPrince_stages P s) = d_horizons s"
  unfolding DormandPrince_stages_def
  apply (rule Let_inv [where I = "\<lambda>x. d_horizons x = d_horizons s"])
   apply simp
  apply (rule Let_inv [where I = "\<lambda>x. d_horizons x = d_horizons s"], (simp; fail), erule thin_rl)+
  apply simp
  done

lemma DormandPrinceOptimised_stages_frame: "stage_frame s (DormandPrinceOptimised_stages P s)"
  unfolding DormandPrinceOptimised_stages_def
  apply (rule Let_inv [where I = "stage_frame s"])
   apply (rule stage_frame_force)
  apply (rule Let_inv [where I = "stage_frame s"],
      (erule stage_frame_upd, (rule stage_frame_force | (simp add: stage_frame_def; fail))),
      erule thin_rl)+
  apply (erule stage_frame_upd, (simp add: stage_frame_def; fail))
  done

lemma DormandPrinceOptimised_stages_horizons:
  "d_horizons (DormandPrinceOptimised_stages P s) = d_horizons s"
  unfolding DormandPrinceOptimised_stages_def
  apply (rule Let_inv [where I = "\<lambda>x. d_horizons x = d_horizons s"])
   apply (simp add: CalcBondForce_adaptive_def)
  apply (rule Let_inv [where I = "\<lambda>x. d_horizons x = d_horizons s"],
      (simp add: CalcBondForce_adaptive_def; fail), erule thin_rl)+
  apply simp
  done

lemma HeunEuler_stages_frame: "stage_frame s (HeunEuler_stages P s)"
  by (simp add: HeunEuler_stages_def Let_def stage_frame_def)

lemma HeunEuler_stages_horizons: "d_horizons (HeunEuler_stages P s) = d_horizons s"
  by (simp add: HeunEuler_stages_def Let_def)

lemma HeunEulerOptimised_stages_frame: "stage_frame s (HeunEulerOptimised_stages P s)"
  unfolding HeunEulerOptimised_stages_def
  apply (rule Let_inv [where I = "stage_frame s"])
   apply (rule stage_frame_force)
  apply (rule Let_inv [where I = "stage_frame s"],
      (erule stage_frame_upd, (rule stage_frame_force | (simp add: stage_frame_def; fail))),
      erule thin_rl)+
  apply (erule stage_frame_upd, (simp add: stage_frame_def; fail))
  done

lemma HeunEulerOptimised_stages_horizons:
  "d_horizons (HeunEulerOptimised_stages P s) = d_horizons s"
  by (simp add: HeunEulerOptimised_stages_def Let_def CalcBondForce_adaptive_def)

lemma DormandPrinceOptimised_stages_bonds: "bonds_kept s (DormandPrinceOptimised_stages P s)"
  unfolding DormandPrinceOptimised_stages_def
  apply (rule Let_inv [where I = "bonds_kept s"])
   apply (rule bonds_kept_adaptive_force [OF bonds_kept_refl])
  apply (rule Let_inv [where I = "bonds_kept s"],
      (erule bonds_kept_adaptive_force | (erule bonds_kept_upd; (simp; fail))), erule thin_rl)+
  apply (erule bonds_kept_upd; (simp; fail))
  done

lemma HeunEulerOptimised_stages_bonds: "bonds_kept s (HeunEulerOptimised_stages P s)"
  by (simp add: HeunEulerOptimised_stages_def Let_def CalcBondForce_adaptive_def bonds_kept_def
      still_broken_refl)

lemma stages_of_frame: "stage_frame s (stages_of P c s)"
  by (cases c)
    (simp_all add: DormandPrince_stages_frame DormandPrinceOptimised_stages_frame
      HeunEuler_stages_frame HeunEulerOptimised_stages_frame stage_frame_refl)

lemma stages_of_horizons: "d_horizons (stages_of P c s) = d_horizons s"
  by (cases c)
    (simp_all add: DormandPrince_stages_horizons DormandPrinceOptimised_stages_horizons
      HeunEuler_stages_horizons HeunEulerOptimised_stages_horizons)

lemma DormandPrince_stages_bonds: "bonds_kept s (DormandPrince_stages P s)"
  unfolding DormandPrince_stages_def
  apply (rule Let_inv [where I = "bonds_kept s"])
   apply (rule bonds_kept_upd [OF bonds_kept_refl]; (simp; fail))
  apply (rule Let_inv [where I = "bonds_kept s"],
      (erule bonds_kept_upd; (simp; fail)), erule thin_rl)+
  apply (erule bonds_kept_upd; (simp; fail))
  done

lemma HeunEuler_stages_bonds: "bonds_kept s (HeunEuler_stages P s)"
  by (simp add: HeunEuler_stages_def Let_def bonds_kept_def still_broken_refl)

lemma stages_of_bonds: "bonds_kept s (stages_of P c s)"
  by (cases c)
    (simp_all add: DormandPrince_stages_bonds DormandPrinceOptimised_stages_bonds
      HeunEuler_stages_bonds HeunEulerOptimised_stages_bonds bonds_kept_refl)

section \<open>The adaptive step\<close>

lemma adapt_decision_reject:
  "mean_error (h_errorn s) = Some e \<Longrightarrow> e > error_size_max s \<Longrightarrow>
   adapt_decision s = (s\<lparr>h_dt := h_dt s / 1.1\<rparr>, 1)"
  by (simp add: adapt_decision_def)

lemma adapt_decision_grow:
  "mean_error (h_errorn s) = Some e \<Longrightarrow> \<not> e > error_size_max s \<Longrightarrow> e < error_size_min s \<Longrightarrow>
   adapt_decision s = (s\<lparr>h_dt := h_dt s * 1.1\<rparr>, 0)"
  by (simp add: adapt_decision_def)

lemma adapt_decision_keep:
  "mean_error (h_errorn s) = None \<or>
     (\<exists>e. mean_error (h_errorn s) = Some e \<and> \<not> e > error_size_max s \<and> \<not> e < error_size_min s) \<Longrightarrow>
   adapt_decision s = (s, 0)"
  by (auto simp: adapt_decision_def)

lemma adapt_decision_errorn: "h_errorn (fst (adapt_decision s)) = h_errorn s"
  by (simp add: adapt_decision_def split: option.splits)

lemma adapt_decision_horizons: "d_horizons (fst (adapt_decision s)) = d_horizons s"
  by (simp add: adapt_decision_def split: option.splits)

text \<open>
  What \<open>adapt_time_step\<close> decides on: the state after the stages with the error buffer
  written and copied to the host (and, for Heun-Euler, the corrector buffer written).
\<close>

lemma adapt_time_step_of_decision:
  assumes "adaptive c"
  shows "\<exists>s2. adapt_time_step_of P c (stages_of P c self) = adapt_decision s2 \<and>
              stage_frame self s2 \<and> d_horizons s2 = d_horizons (stages_of P c self) \<and>
              h_horizons s2 = h_horizons (stages_of P c self)"
proof -
  let ?s1 = "stages_of P c self"
  have f1: "stage_frame self ?s1" by (rule stages_of_frame)
  have dp: "\<exists>s2. DormandPrince_adapt_time_step P ?s1 = adapt_decision s2 \<and>
              stage_frame ?s1 s2 \<and> d_horizons s2 = d_horizons ?s1 \<and> h_horizons s2 = h_horizons ?s1"
    unfolding DormandPrince_adapt_time_step_def Let_def
    by (rule exI, intro conjI, rule refl) (simp_all add: stage_frame_def)
  have he: "\<exists>s2. HeunEuler_adapt_time_step P ?s1 = adapt_decision s2 \<and>
              stage_frame ?s1 s2 \<and> d_horizons s2 = d_horizons ?s1 \<and> h_horizons s2 = h_horizons ?s1"
    unfolding HeunEuler_adapt_time_step_def Let_def
    by (rule exI, intro conjI, rule refl) (simp_all add: stage_frame_def)
  have "\<exists>s2. adapt_time_step_of P c ?s1 = adapt_decision s2 \<and>
              stage_frame ?s1 s2 \<and> d_horizons s2 = d_horizons ?s1 \<and> h_horizons s2 = h_horizons ?s1"
    using assms dp he by (cases c) simp_all
  then show ?thesis using f1 stage_frame_upd by blast
qed

lemma runtime_of_adaptive:
  assumes "adaptive c"
  shows "runtime_of P c n self =
           (if adapt_flag P c self = 1 then adapted P c self
            else commit_of P c (adapted P c self))"
  using assms
  by (cases c)
    (simp_all add: adapt_flag_def adapted_def DormandPrince_runtime_def
      DormandPrinceOptimised_runtime_def HeunEuler_runtime_def HeunEulerOptimised_runtime_def
      split: prod.splits)

lemma committed_frame:
  "adaptive c \<Longrightarrow> stage_frame s x \<Longrightarrow> committed c x = committed c s"
  by (cases c) (simp_all add: stage_frame_def)

lemma commit_of_values:
  assumes "adaptive c"
  shows "committed c (commit_of P c t) =
           kernel_of P ''UpdateDisplacement'' [] [trial c t, committed c t] [h_dt t]"
    and "h_dt (commit_of P c t) = h_dt t"
  using assms
  by (cases c; simp add: DormandPrince_commit_def HeunEuler_commit_def Let_def)+

lemma trial_h_dt: "trial c (s\<lparr>h_dt := v\<rparr>) = trial c s"
  by (cases c) simp_all

lemma committed_h_dt: "committed c (s\<lparr>h_dt := v\<rparr>) = committed c s"
  by (cases c) simp_all

text \<open>
  C2. For every step of an adaptive class (DormandPrince, DormandPrinceOptimised,
  HeunEuler, HeunEulerOptimised), with \<open>error\<close> the mean of the row norms of the error
  array: if \<open>error > error_size_max\<close>, the step is rejected, \<open>h_dt\<close> is divided by 1.1 and
  the committed displacements are those before the step; else if
  \<open>error < error_size_min\<close>, the step is committed and \<open>h_dt\<close> is multiplied by 1.1;
  otherwise (NaN included) the step is committed and \<open>h_dt\<close> is as before. Committing is
  the kernel UpdateDisplacement on the trial and the committed buffer, followed by
  CheckBonds; the kernel is handed \<open>h_dt\<close> as \<open>adapt_time_step\<close> left it.
\<close>

theorem adaptive_step_policy:
  assumes "adaptive c"
  shows "(\<forall>err. step_error P c self = Some err \<and> err > error_size_max self \<longrightarrow>
            runtime_of P c n self = adapted P c self \<and>
            h_dt (runtime_of P c n self) = h_dt self / 1.1 \<and>
            committed c (runtime_of P c n self) = committed c self) \<and>
         (\<forall>err. step_error P c self = Some err \<and> \<not> err > error_size_max self \<and>
                err < error_size_min self \<longrightarrow>
            runtime_of P c n self = commit_of P c (adapted P c self) \<and>
            h_dt (runtime_of P c n self) = h_dt self * 1.1 \<and>
            committed c (runtime_of P c n self) =
              kernel_of P ''UpdateDisplacement'' []
                [trial c (adapted P c self), committed c self] [h_dt self * 1.1]) \<and>
         (step_error P c self = None \<or>
          (\<exists>err. step_error P c self = Some err \<and> \<not> err > error_size_max self \<and>
                 \<not> err < error_size_min self) \<longrightarrow>
            runtime_of P c n self = commit_of P c (adapted P c self) \<and>
            h_dt (runtime_of P c n self) = h_dt self \<and>
            committed c (runtime_of P c n self) =
              kernel_of P ''UpdateDisplacement'' []
                [trial c (adapted P c self), committed c self] [h_dt self])"
proof -
  from adapt_time_step_of_decision [OF assms, of P self] obtain s2 where
    dec: "adapt_time_step_of P c (stages_of P c self) = adapt_decision s2" and
    fr: "stage_frame self s2"
    by blast
  have ad: "adapted P c self = fst (adapt_decision s2)"
    and fl: "adapt_flag P c self = snd (adapt_decision s2)"
    by (simp_all add: adapted_def adapt_flag_def dec)
  have se: "step_error P c self = mean_error (h_errorn s2)"
    by (simp add: step_error_def ad adapt_decision_errorn)
  have mx: "error_size_max s2 = error_size_max self" and mn: "error_size_min s2 = error_size_min self"
    and hd: "h_dt s2 = h_dt self"
    using fr by (simp_all add: stage_frame_def)
  have cm: "committed c s2 = committed c self"
    by (rule committed_frame [OF assms fr])
  note rt = runtime_of_adaptive [OF assms, of P n self]
  note cv = commit_of_values [OF assms, of P]
  show ?thesis
  proof (intro conjI allI impI)
    fix err assume a: "step_error P c self = Some err \<and> err > error_size_max self"
    then have d: "adapt_decision s2 = (s2\<lparr>h_dt := h_dt s2 / 1.1\<rparr>, 1)"
      using adapt_decision_reject [of s2 err] se mx by simp
    show "runtime_of P c n self = adapted P c self"
      using rt fl d by simp
    then show "h_dt (runtime_of P c n self) = h_dt self / 1.1"
      using ad d hd by simp
    show "committed c (runtime_of P c n self) = committed c self"
      using \<open>runtime_of P c n self = adapted P c self\<close> ad d cm by (simp add: committed_h_dt)
  next
    fix err assume a: "step_error P c self = Some err \<and> \<not> err > error_size_max self \<and>
        err < error_size_min self"
    then have d: "adapt_decision s2 = (s2\<lparr>h_dt := h_dt s2 * 1.1\<rparr>, 0)"
      using adapt_decision_grow [of s2 err] se mx mn by simp
    show r: "runtime_of P c n self = commit_of P c (adapted P c self)"
      using rt fl d by simp
    show "h_dt (runtime_of P c n self) = h_dt self * 1.1"
      using r cv(2) ad d hd by simp
    show "committed c (runtime_of P c n self) =
        kernel_of P ''UpdateDisplacement'' []
          [trial c (adapted P c self), committed c self] [h_dt self * 1.1]"
      using r cv(1) [of "adapted P c self"] ad d hd cm by (simp add: committed_h_dt)
  next
    assume a: "step_error P c self = None \<or>
        (\<exists>err. step_error P c self = Some err \<and> \<not> err > error_size_max self \<and>
               \<not> err < error_size_min self)"
    then have d: "adapt_decision s2 = (s2, 0)"
      using adapt_decision_keep [of s2] se mx mn by simp
    show r: "runtime_of P c n self = commit_of P c (adapted P c self)"
      using rt fl d by simp
    show "h_dt (runtime_of P c n self) = h_dt self"
      using r cv(2) ad d hd by simp
    show "committed c (runtime_of P c n self) =
        kernel_of P ''UpdateDisplacement'' []
          [trial c (adapted P c self), committed c self] [h_dt self]"
      using r cv(1) [of "adapted P c self"] ad d hd cm by simp
  qed
qed

lemma heun_example_fields:
  "h_dt heun_example = 1" "error_size_max heun_example = 1 / 100"
  "error_size_min heun_example = 1 / 10000000000" "d_un2 heun_example = zeros 2"
  "d_horizons heun_example = [[1], [0]]"
  by (simp_all add: heun_example_def HeunEuler_init_def adaptive_init_def init_buffers_def
      two_nodes_def zero_memory_def)

lemma heun_kernel_values:
  "kernel_of heun_program ''CalcBondForce'' hs bufs sc = [(0, 0, 0), (1, 0, 0)]"
  "kernel_of heun_program ''ReduceForce'' hs bufs sc = bufs ! 0"
  "kernel_of heun_program ''PartialUpdateDisplacement'' hs bufs sc =
     map2 add3 (bufs ! 1) (scalar_mul (sc ! 0) (bufs ! 0))"
  "kernel_of heun_program ''CheckError'' hs bufs sc = map2 sub3 (bufs ! 2) (bufs ! 3)"
  "kernel_of heun_program ''CheckError.un2_1'' hs bufs sc = bufs ! 2"
  "kernel_of heun_program ''UpdateDisplacement'' hs bufs sc = bufs ! 0"
  by (simp_all add: heun_program_def heun_kernels_def)

lemma heun_example_predictor:
  "d_un1 (HeunEuler_stages heun_program heun_example) = [(0, 0, 0), (1, 0, 0)]"
  "d_un2 (HeunEuler_stages heun_program heun_example) = zeros 2"
  by (simp_all add: HeunEuler_stages_def Let_def heun_kernel_values heun_example_fields
      zeros_def add3_def scalar_mul_def vx_def vy_def vz_def numeral_2_eq_2)

lemma heun_example_error:
  "step_error heun_program HeunEuler heun_example = Some (1 / 2)"
proof -
  have "h_errorn (adapted heun_program HeunEuler heun_example) = [(0, 0, 0), (1, 0, 0)]"
    by (simp add: adapted_def HeunEuler_adapt_time_step_def Let_def adapt_decision_errorn
        heun_kernel_values heun_example_predictor zeros_def sub3_def vx_def vy_def vz_def
        numeral_2_eq_2)
  then show ?thesis
    by (simp add: step_error_def mean_error_def np_mean_def norm3_def vx_def vy_def vz_def)
qed

theorem adaptive_step_policy_witness:
  "adaptive HeunEuler \<and>
   step_error heun_program HeunEuler heun_example = Some (1 / 2) \<and>
   h_dt (runtime_of heun_program HeunEuler 0 heun_example) = 10 / 11 \<and>
   committed HeunEuler (runtime_of heun_program HeunEuler 0 heun_example) = zeros 2"
proof -
  have a: "adaptive HeunEuler" by simp
  have big: "(1 / 2 :: real) > error_size_max heun_example"
    by (simp add: heun_example_fields)
  from adaptive_step_policy [OF a, of heun_program heun_example 0] heun_example_error big
  have "h_dt (runtime_of heun_program HeunEuler 0 heun_example) = h_dt heun_example / 1.1 \<and>
        committed HeunEuler (runtime_of heun_program HeunEuler 0 heun_example) =
          committed HeunEuler heun_example"
    by blast
  then show ?thesis
    using a heun_example_error by (simp add: heun_example_fields)
qed

section \<open>Rejected steps\<close>

lemma adapt_decision_committed: "committed c (fst (adapt_decision s)) = committed c s"
  by (cases c) (simp_all add: adapt_decision_def split: option.splits)

lemma adapted_frame:
  assumes "adaptive c"
  shows "committed c (adapted P c self) = committed c self"
    and "d_horizons (adapted P c self) = d_horizons (stages_of P c self)"
proof -
  from adapt_time_step_of_decision [OF assms, of P self] obtain s2 where
    dec: "adapt_time_step_of P c (stages_of P c self) = adapt_decision s2" and
    fr: "stage_frame self s2" and hz: "d_horizons s2 = d_horizons (stages_of P c self)"
    by blast
  have ad: "adapted P c self = fst (adapt_decision s2)"
    by (simp add: adapted_def dec)
  show "committed c (adapted P c self) = committed c self"
    using committed_frame [OF assms fr] by (simp add: ad adapt_decision_committed)
  show "d_horizons (adapted P c self) = d_horizons (stages_of P c self)"
    by (simp add: ad adapt_decision_horizons hz)
qed

lemma rejected_when_error_large:
  assumes "adaptive c" and "step_error P c self = Some e" and "e > error_size_max self"
  shows "adapt_flag P c self = 1"
proof -
  from adapt_time_step_of_decision [OF assms(1), of P self] obtain s2 where
    dec: "adapt_time_step_of P c (stages_of P c self) = adapt_decision s2" and
    fr: "stage_frame self s2"
    by blast
  have "step_error P c self = mean_error (h_errorn s2)"
    by (simp add: step_error_def adapted_def dec adapt_decision_errorn)
  then have "adapt_decision s2 = (s2\<lparr>h_dt := h_dt s2 / 1.1\<rparr>, 1)"
    using adapt_decision_reject [of s2 e] assms(2,3) fr by (simp add: stage_frame_def)
  then show ?thesis by (simp add: adapt_flag_def dec)
qed

lemma adapted_geometry:
  assumes "adaptive c"
  shows "d_horizons (adapted P c self) = d_horizons self"
    and "d_coords (adapted P c self) = d_coords self"
    and "d_bond_critical_stretch (adapted P c self) = d_bond_critical_stretch self"
proof -
  from adapt_time_step_of_decision [OF assms, of P self] obtain s2 where
    dec: "adapt_time_step_of P c (stages_of P c self) = adapt_decision s2" and
    fr: "stage_frame self s2"
    by blast
  have ad: "adapted P c self = fst (adapt_decision s2)"
    by (simp add: adapted_def dec)
  show "d_horizons (adapted P c self) = d_horizons self"
    using adapted_frame(2) [OF assms, of P self] by (simp add: stages_of_horizons)
  show "d_coords (adapted P c self) = d_coords self"
    using fr by (simp add: ad adapt_decision_def stage_frame_def split: option.splits)
  show "d_bond_critical_stretch (adapted P c self) = d_bond_critical_stretch self"
    using fr by (simp add: ad adapt_decision_def stage_frame_def split: option.splits)
qed

lemma commit_of_check:
  assumes "adaptive c"
  shows "d_horizons (commit_of P c t) =
           CheckBonds (d_horizons t) (committed c (commit_of P c t)) (d_coords t)
             (d_bond_critical_stretch t)"
  using assms
  by (cases c; simp add: DormandPrince_commit_def HeunEuler_commit_def Let_def)+

text \<open>
  C3. A step of an adaptive class (DormandPrince, DormandPrinceOptimised, HeunEuler,
  HeunEulerOptimised) whose \<open>adapt_time_step\<close> returns 1 ends there: the committed
  displacements are those before the step and the adjacency buffer is the one before the
  step, so no bond breaks in a rejected step. On every other step the committed buffer is
  updated and the adjacency buffer is the result of the failure rule at the new committed
  displacements, applied to the flags before the step: the stages of the step, with their
  trial displacements, have left no mark on the bonds. The kernels are modelled from the
  spec.
\<close>

theorem rejected_step_frame:
  assumes "adaptive c"
  shows "(adapt_flag P c self = 1 \<longrightarrow>
            runtime_of P c n self = adapted P c self \<and>
            committed c (runtime_of P c n self) = committed c self \<and>
            d_horizons (runtime_of P c n self) = d_horizons self) \<and>
         (adapt_flag P c self \<noteq> 1 \<longrightarrow>
            runtime_of P c n self = commit_of P c (adapted P c self) \<and>
            d_horizons (runtime_of P c n self) =
              CheckBonds (d_horizons self) (committed c (runtime_of P c n self))
                (d_coords self) (d_bond_critical_stretch self))"
proof (intro conjI impI)
  assume rej: "adapt_flag P c self = 1"
  show r: "runtime_of P c n self = adapted P c self"
    using runtime_of_adaptive [OF assms, of P n self] rej by simp
  show "committed c (runtime_of P c n self) = committed c self"
    using r adapted_frame(1) [OF assms] by simp
  show "d_horizons (runtime_of P c n self) = d_horizons self"
    using r adapted_geometry(1) [OF assms] by simp
next
  assume "adapt_flag P c self \<noteq> 1"
  then show r: "runtime_of P c n self = commit_of P c (adapted P c self)"
    using runtime_of_adaptive [OF assms, of P n self] by simp
  show "d_horizons (runtime_of P c n self) =
          CheckBonds (d_horizons self) (committed c (runtime_of P c n self))
            (d_coords self) (d_bond_critical_stretch self)"
    unfolding r commit_of_check [OF assms] adapted_geometry [OF assms] ..
qed

lemma heun_example_geometry:
  "d_coords heun_example = [(0, 0, 0), (1, 0, 0)]"
  "d_bond_critical_stretch heun_example = (\<lambda>i k. 1 / 2)"
  "d_forces heun_example = zeros 2" "d_k1dn heun_example = zeros 2"
  "d_un1 heun_example = zeros 2" "d_k2dn heun_example = zeros 2"
  by (simp_all add: heun_example_def HeunEuler_init_def adaptive_init_def init_buffers_def
      two_nodes_def zero_memory_def)

lemma two_node_bonds_stretched:
  "CheckBonds [[1], [0]] [(0, 0, 0), (1, 0, 0)] [(0, 0, 0), (1, 0, 0)] (\<lambda>i k. 1 / 2) =
     [[- 1], [- 1]]"
  by (simp add: CheckBonds_def bond_fails_def bond_stretch_def norm3_def sub3_def add3_def
      vx_def vy_def vz_def upt_rec Let_def)

lemma heun_example_optimised_stages:
  "d_un1 (HeunEulerOptimised_stages heun_program heun_example) = [(0, 0, 0), (1, 0, 0)]"
  "d_un2 (HeunEulerOptimised_stages heun_program heun_example) = zeros 2"
proof -
  have un1: "map2 add3 (zeros 2) (scalar_mul 1 [(0, 0, 0), (1, 0, 0)]) = [(0, 0, 0), (1, 0, 0)]"
    by (simp add: zeros_def add3_def scalar_mul_def vx_def vy_def vz_def numeral_2_eq_2)
  show "d_un1 (HeunEulerOptimised_stages heun_program heun_example) = [(0, 0, 0), (1, 0, 0)]"
    by (simp add: HeunEulerOptimised_stages_def Let_def CalcBondForce_adaptive_def
        heun_kernel_values heun_example_fields heun_example_geometry un1)
  show "d_un2 (HeunEulerOptimised_stages heun_program heun_example) = zeros 2"
    by (simp add: HeunEulerOptimised_stages_def Let_def CalcBondForce_adaptive_def
        heun_example_fields)
qed

lemma heun_example_optimised_error:
  "step_error heun_program HeunEulerOptimised heun_example = Some (1 / 2)"
proof -
  have "h_errorn (adapted heun_program HeunEulerOptimised heun_example) = [(0, 0, 0), (1, 0, 0)]"
    by (simp add: adapted_def HeunEuler_adapt_time_step_def Let_def adapt_decision_errorn
        heun_kernel_values heun_example_optimised_stages zeros_def sub3_def vx_def vy_def vz_def
        numeral_2_eq_2)
  then show ?thesis
    by (simp add: step_error_def mean_error_def np_mean_def norm3_def vx_def vy_def vz_def)
qed

lemma heun_example_optimised_flag:
  "adapt_flag heun_program HeunEulerOptimised heun_example = 1"
  by (rule rejected_when_error_large [OF _ heun_example_optimised_error])
    (simp_all add: heun_example_fields)

text \<open>
  On the two-node object the predictor of HeunEulerOptimised moves the second node by the
  length of the bond, which would stretch the bond to twice its length, above the critical
  stretch 1/2. The step is rejected (mean error 1/2 above the bound 1/100): the committed
  displacements are still zero and the bond is still active.
\<close>

theorem rejected_step_frame_witness:
  "adaptive HeunEulerOptimised \<and>
   adapt_flag heun_program HeunEulerOptimised heun_example = 1 \<and>
   committed HeunEulerOptimised (runtime_of heun_program HeunEulerOptimised 0 heun_example) =
     zeros 2 \<and>
   d_horizons (runtime_of heun_program HeunEulerOptimised 0 heun_example) = [[1], [0]] \<and>
   CheckBonds [[1], [0]]
     (d_un1 (HeunEulerOptimised_stages heun_program heun_example))
     [(0, 0, 0), (1, 0, 0)] (\<lambda>i k. 1 / 2) = [[- 1], [- 1]]"
proof -
  have a: "adaptive HeunEulerOptimised" by simp
  from rejected_step_frame [OF a, of heun_program heun_example 0] heun_example_optimised_flag
  have "committed HeunEulerOptimised (runtime_of heun_program HeunEulerOptimised 0 heun_example) =
          committed HeunEulerOptimised heun_example \<and>
        d_horizons (runtime_of heun_program HeunEulerOptimised 0 heun_example) =
          d_horizons heun_example"
    by blast
  then show ?thesis
    using a heun_example_optimised_flag
    by (simp add: heun_example_fields heun_example_optimised_stages two_node_bonds_stretched)
qed

section \<open>Displacement boundary conditions\<close>

lemma meets_bc_nth:
  "meets_bc bc a = (\<forall>i<length a. row_meets_bc bc i (a ! i))"
  by (simp add: meets_bc_def list_all_length)

lemma meets_bc_hold: "meets_bc bc (hold_bc bc a)"
  by (simp add: meets_bc_nth hold_bc_def row_meets_bc_def hold_row_def vx_def vy_def vz_def)

lemma with_bc_kernel:
  "name \<in> set (bc_kernels c) \<Longrightarrow> meets_bc bc (kernel_of (with_bc bc c P) name hs bufs scalars)"
  by (simp add: with_bc_def meets_bc_hold)

lemma with_bc_other:
  "name \<notin> set (bc_kernels c) \<Longrightarrow> kernel_of (with_bc bc c P) name = kernel_of P name"
  by (simp add: with_bc_def)

lemma Let_any: "(\<And>x. J (f x)) \<Longrightarrow> J (Let e f)"
  by simp

lemma EulerCromer_runtime_bc:
  "meets_bc bc (d_un (EulerCromer_runtime (with_bc bc EulerCromer P) s))"
  by (simp add: EulerCromer_runtime_def Let_def with_bc_kernel)

lemma EulerCromerOptimised_runtime_bc:
  "meets_bc bc (d_un (EulerCromerOptimised_runtime (with_bc bc EulerCromerOptimised P) s))"
  by (simp add: EulerCromerOptimised_runtime_def Let_def CalcBondForce_optimised_def with_bc_kernel)

lemma EulerOpenCL_runtime_bc:
  "meets_bc bc (d_un (EulerOpenCL_runtime (with_bc bc EulerOpenCL P) s))"
  by (simp add: EulerOpenCL_runtime_def Let_def with_bc_kernel)

lemma EulerOpenCLOptimised_runtime_bc:
  "meets_bc bc (d_un (EulerOpenCLOptimised_runtime (with_bc bc EulerOpenCLOptimised P) s))"
  by (simp add: EulerOpenCLOptimised_runtime_def Let_def CalcBondForce_optimised_def with_bc_kernel)

lemma VelocityVerletOpenCL_runtime_bc:
  "meets_bc bc (d_udn (VelocityVerletOpenCL_runtime (with_bc bc VelocityVerletOpenCL P) s))"
  by (simp add: VelocityVerletOpenCL_runtime_def Let_def with_bc_kernel)

lemma RK4_runtime_bc:
  "meets_bc bc (d_un (RK4_runtime (with_bc bc RK4 P) s))"
  unfolding RK4_runtime_def
  apply (rule Let_any [where J = "\<lambda>x. meets_bc bc (d_un x)"],
      rule Let_any [where J = "\<lambda>x. meets_bc bc (d_un x)"],
      rule Let_any [where J = "\<lambda>x. meets_bc bc (d_un x)"],
      rule Let_any [where J = "\<lambda>x. meets_bc bc (d_un x)"],
      rule Let_any [where J = "\<lambda>x. meets_bc bc (d_un x)"],
      rule Let_any [where J = "\<lambda>x. meets_bc bc (d_un x)"],
      rule Let_any [where J = "\<lambda>x. meets_bc bc (d_un x)"])
  apply (simp add: Let_def with_bc_kernel)
  done

lemma RK4Optimised_runtime_bc:
  "meets_bc bc (d_un (RK4Optimised_runtime (with_bc bc RK4Optimised P) s))"
  unfolding RK4Optimised_runtime_def
  apply (rule Let_any [where J = "\<lambda>x. meets_bc bc (d_un x)"])+
  apply (simp add: with_bc_kernel)
  done

lemma EulerOpenCLOptimisedLumped_runtime_bc:
  "meets_bc bc (d_un (EulerOpenCLOptimisedLumped_runtime (with_bc bc EulerOpenCLOptimisedLumped P) s))"
  by (simp add: EulerOpenCLOptimisedLumped_runtime_def Let_def with_bc_kernel)

lemma EulerStochastic_runtime_bc:
  "meets_bc bc (d_un (EulerStochastic_runtime (with_bc bc EulerStochastic P) n s))"
  by (simp add: EulerStochastic_runtime_def Let_def CalcBondForce_optimised_def with_bc_kernel)

lemma adaptive_kernel: "adaptive c \<Longrightarrow> bc_kernels c = [''UpdateDisplacement'']"
  by (cases c) simp_all

lemma adaptive_buffer: "adaptive c \<Longrightarrow> bc_buffer c = committed c"
  by (cases c) simp_all

lemma fixed_step_bc:
  "\<not> adaptive c \<Longrightarrow> meets_bc bc (bc_buffer c (runtime_of (with_bc bc c P) c n s))"
  by (cases c)
    (simp_all add: EulerCromer_runtime_bc EulerCromerOptimised_runtime_bc EulerOpenCL_runtime_bc
      EulerOpenCLOptimised_runtime_bc VelocityVerletOpenCL_runtime_bc RK4_runtime_bc
      RK4Optimised_runtime_bc EulerOpenCLOptimisedLumped_runtime_bc EulerStochastic_runtime_bc)

lemma accepted_step_bc:
  assumes "adaptive c" and "adapt_flag (with_bc bc c P) c s \<noteq> 1"
  shows "meets_bc bc (bc_buffer c (runtime_of (with_bc bc c P) c n s))"
proof -
  have "runtime_of (with_bc bc c P) c n s =
          commit_of (with_bc bc c P) c (adapted (with_bc bc c P) c s)"
    using runtime_of_adaptive [OF assms(1), of "with_bc bc c P" n s] assms(2) by simp
  then show ?thesis
    by (simp add: adaptive_buffer [OF assms(1)] commit_of_values(1) [OF assms(1)]
        with_bc_kernel adaptive_kernel [OF assms(1)])
qed

lemma rejected_step_bc:
  assumes "adaptive c" and "adapt_flag (with_bc bc c P) c s = 1"
  shows "bc_buffer c (runtime_of (with_bc bc c P) c n s) = bc_buffer c s"
  using runtime_of_adaptive [OF assms(1), of "with_bc bc c P" n s] assms(2)
    adapted_frame(1) [OF assms(1), of "with_bc bc c P" s]
  by (simp add: adaptive_buffer [OF assms(1)])

text \<open>
  C6. Displacement boundary conditions are applied after the update of a step and
  override it. On the Euler path, whose integrator applies none, the regression driver
  writes them after the integrator's call: a round \<open>t\<close> that completes leaves the rows of
  the left boundary nodes at \<open>(-0.5 * t * load_rate, 0, 0)\<close> and those of the right ones at
  \<open>(0.5 * t * load_rate, 0, 0)\<close>, it completes when the arrays have a row per node, and
  the fixture returns the boundary rows of round 10. In the OpenCL classes the kernel that
  is handed the boundary-condition tables (modelled from the spec) does it: after a step
  of a fixed-step class, and after an accepted step of an adaptive class, every
  constrained degree of freedom of the buffer that kernel writes has its prescribed value,
  whatever the program computes from the forces and whatever the state before the step.
  The buffer is the committed displacements, and the velocities in VelocityVerletOpenCL.
  A rejected step of an adaptive class dispatches no such kernel and leaves the committed
  displacements as they were.
\<close>

theorem boundary_conditions_override:
  "(regression_step physics (simple_square_lhs 0.1 xyz) (simple_square_rhs 0.1 xyz)
        integrator t (ma, u, d) = Inr (mb, u', d') \<longrightarrow>
      (\<forall>i\<in>set (simple_square_lhs 0.1 xyz). u' ! i = (- 0.5 * real t * load_rate, 0, 0)) \<and>
      (\<forall>i\<in>set (simple_square_rhs 0.1 xyz). u' ! i = (0.5 * real t * load_rate, 0, 0))) \<and>
   (length u = length xyz \<and> length (snd (snd (physics ma u))) = length xyz \<and>
    (length (simple_square_lhs 0.1 xyz) = length (simple_square_rhs 0.1 xyz) \<or>
     length (simple_square_rhs 0.1 xyz) = 1) \<longrightarrow>
      (\<exists>mc ub db. regression_step physics (simple_square_lhs 0.1 xyz)
          (simple_square_rhs 0.1 xyz) integrator t (ma, u, d) = Inr (mc, ub, db) \<and>
          length ub = length xyz)) \<and>
   (regression physics ma xyz = Inr (md, uc, dc) \<longrightarrow>
      (\<forall>i\<in>set (simple_square_lhs 0.1 xyz). uc ! i = (- 0.5 * 10 * load_rate, 0, 0)) \<and>
      (\<forall>i\<in>set (simple_square_rhs 0.1 xyz). uc ! i = (0.5 * 10 * load_rate, 0, 0))) \<and>
   (\<not> adaptive c \<longrightarrow>
      meets_bc bc (bc_buffer c (runtime_of (with_bc bc c P) c n self))) \<and>
   (adaptive c \<and> adapt_flag (with_bc bc c P) c self \<noteq> 1 \<longrightarrow>
      meets_bc bc (committed c (runtime_of (with_bc bc c P) c n self))) \<and>
   (adaptive c \<and> adapt_flag (with_bc bc c P) c self = 1 \<longrightarrow>
      committed c (runtime_of (with_bc bc c P) c n self) = committed c self)"
proof -
  note reg = regression_rounds_boundary
    [of physics xyz integrator t ma u d mb u' d' md uc dc]
  have fixed: "\<not> adaptive c \<longrightarrow>
      meets_bc bc (bc_buffer c (runtime_of (with_bc bc c P) c n self))"
    by (simp add: fixed_step_bc)
  have acc: "adaptive c \<and> adapt_flag (with_bc bc c P) c self \<noteq> 1 \<longrightarrow>
      meets_bc bc (committed c (runtime_of (with_bc bc c P) c n self))"
    using accepted_step_bc [of c bc P self n] by (auto simp: adaptive_buffer)
  have rej: "adaptive c \<and> adapt_flag (with_bc bc c P) c self = 1 \<longrightarrow>
      committed c (runtime_of (with_bc bc c P) c n self) = committed c self"
    using rejected_step_bc [of c bc P self n] by (auto simp: adaptive_buffer)
  from reg fixed acc rej show ?thesis by blast
qed

lemma EulerCromer_example_step:
  "d_un (runtime_of (with_bc clamp_example EulerCromer heun_program) EulerCromer 0 tip_example) =
     [(5, 0, 0), (0, 0, 0)]"
  by (simp add: EulerCromer_runtime_def Let_def with_bc_def heun_program_def heun_kernels_def
      tip_example_def init_buffers_def zero_memory_def hold_bc_def hold_row_def clamp_example_def
      zeros_def vx_def vy_def vz_def upt_rec numeral_2_eq_2)

lemma heun_example_flag: "adapt_flag heun_program HeunEuler heun_example = 1"
  by (rule rejected_when_error_large [OF _ heun_example_error])
    (simp_all add: heun_example_fields)

lemma HeunEuler_flag_with_bc:
  "adapt_flag (with_bc bc HeunEuler P) HeunEuler s = adapt_flag P HeunEuler s"
  by (simp add: adapt_flag_def HeunEuler_stages_def HeunEuler_adapt_time_step_def with_bc_other)

theorem boundary_conditions_override_witness:
  "(\<exists>mb u' d'.
     regression_step (\<lambda>m u. (m, [], [(1, 1, 1), (1, 1, 1)]))
       (simple_square_lhs 0.1 [(0, 0, 0), (1, 0, 0)]) (simple_square_rhs 0.1 [(0, 0, 0), (1, 0, 0)])
       (Euler_init 0.001 None) 3 ((), zeros 2, []) = Inr (mb, u', d') \<and>
     u' ! 0 = (- 0.5 * 3 * load_rate, 0, 0) \<and> u' ! 1 = (0.5 * 3 * load_rate, 0, 0)) \<and>
   meets_bc clamp_example
     (d_un (runtime_of (with_bc clamp_example EulerCromer heun_program) EulerCromer 0 tip_example)) \<and>
   d_un (runtime_of (with_bc clamp_example EulerCromer heun_program) EulerCromer 0 tip_example) =
     [(5, 0, 0), (0, 0, 0)] \<and>
   adapt_flag (with_bc clamp_example HeunEuler heun_program) HeunEuler heun_example = 1 \<and>
   committed HeunEuler
     (runtime_of (with_bc clamp_example HeunEuler heun_program) HeunEuler 0 heun_example) = zeros 2"
proof -
  let ?xyz = "[(0, 0, 0), (1, 0, 0)] :: ndarray"
  let ?ph = "\<lambda>(m::unit) (u::ndarray). (m, [] :: real list, [(1, 1, 1), (1, 1, 1)] :: ndarray)"
  have pre: "length (zeros 2) = length ?xyz \<and>
      length (snd (snd (?ph () (zeros 2)))) = length ?xyz \<and>
      (length (simple_square_lhs 0.1 ?xyz) = length (simple_square_rhs 0.1 ?xyz) \<or>
       length (simple_square_rhs 0.1 ?xyz) = 1)"
    by (simp add: zeros_def two_node_columns)
  note inst = boundary_conditions_override
    [where physics = ?ph and xyz = ?xyz and integrator = "Euler_init 0.001 None" and t = 3
       and ma = "()" and u = "zeros 2" and d = "[]"]
  from inst [THEN conjunct2, THEN conjunct1] pre obtain mc u2 d2 where
    run: "regression_step ?ph (simple_square_lhs 0.1 ?xyz) (simple_square_rhs 0.1 ?xyz)
            (Euler_init 0.001 None) 3 ((), zeros 2, []) = Inr (mc, u2, d2)"
    by blast
  from boundary_conditions_override
    [where physics = ?ph and xyz = ?xyz and integrator = "Euler_init 0.001 None" and t = 3
       and ma = "()" and u = "zeros 2" and d = "[]" and mb = mc
       and u' = u2 and d' = d2, THEN conjunct1] run
  have "(\<forall>i\<in>set (simple_square_lhs 0.1 ?xyz). u2 ! i = (- 0.5 * real 3 * load_rate, 0, 0)) \<and>
        (\<forall>i\<in>set (simple_square_rhs 0.1 ?xyz). u2 ! i = (0.5 * real 3 * load_rate, 0, 0))"
    by blast
  then have "u2 ! 0 = (- 0.5 * 3 * load_rate, 0, 0) \<and> u2 ! 1 = (0.5 * 3 * load_rate, 0, 0)"
    by (simp add: two_node_columns)
  with run have driver: "\<exists>mb u' d'.
     regression_step ?ph (simple_square_lhs 0.1 ?xyz) (simple_square_rhs 0.1 ?xyz)
       (Euler_init 0.001 None) 3 ((), zeros 2, []) = Inr (mb, u', d') \<and>
     u' ! 0 = (- 0.5 * 3 * load_rate, 0, 0) \<and> u' ! 1 = (0.5 * 3 * load_rate, 0, 0)"
    by blast
  have flag: "adapt_flag (with_bc clamp_example HeunEuler heun_program) HeunEuler heun_example = 1"
    by (simp add: HeunEuler_flag_with_bc heun_example_flag)
  from boundary_conditions_override
    [where c = EulerCromer and bc = clamp_example and P = heun_program and n = 0
       and self = tip_example, THEN conjunct2, THEN conjunct2, THEN conjunct2, THEN conjunct1]
  have fixed: "meets_bc clamp_example
     (d_un (runtime_of (with_bc clamp_example EulerCromer heun_program) EulerCromer 0 tip_example))"
    by simp
  from boundary_conditions_override
    [where c = HeunEuler and bc = clamp_example and P = heun_program and n = 0
       and self = heun_example, THEN conjunct2, THEN conjunct2, THEN conjunct2, THEN conjunct2,
       THEN conjunct2] flag
  have rejected: "committed HeunEuler
     (runtime_of (with_bc clamp_example HeunEuler heun_program) HeunEuler 0 heun_example) =
       committed HeunEuler heun_example"
    by simp
  from driver fixed EulerCromer_example_step flag rejected show ?thesis
    by (simp add: heun_example_fields)
qed

section \<open>Broken bonds over a run\<close>

lemma EulerCromer_runtime_bonds: "bonds_kept s (EulerCromer_runtime P s)"
  unfolding EulerCromer_runtime_def
  apply (rule Let_inv [where I = "bonds_kept s"])
   apply (rule bonds_kept_upd [OF bonds_kept_refl]; (simp; fail))
  apply (rule Let_inv [where I = "bonds_kept s"],
      (erule bonds_kept_upd; (simp; fail)), erule thin_rl)+
  apply (erule bonds_kept_check)
  done

lemma EulerCromerOptimised_runtime_bonds: "bonds_kept s (EulerCromerOptimised_runtime P s)"
  unfolding EulerCromerOptimised_runtime_def
  apply (rule Let_inv [where I = "bonds_kept s"])
   apply (rule bonds_kept_upd [OF bonds_kept_refl]; (simp; fail))
  apply (rule Let_inv [where I = "bonds_kept s"],
      (erule bonds_kept_force | (erule bonds_kept_upd; (simp; fail))), erule thin_rl)+
  apply (erule bonds_kept_upd; (simp; fail))
  done

lemma EulerOpenCL_runtime_bonds: "bonds_kept s (EulerOpenCL_runtime P s)"
  unfolding EulerOpenCL_runtime_def
  apply (rule Let_inv [where I = "bonds_kept s"])
   apply (rule bonds_kept_upd [OF bonds_kept_refl]; (simp; fail))
  apply (rule Let_inv [where I = "bonds_kept s"],
      (erule bonds_kept_upd; (simp; fail)), erule thin_rl)+
  apply (erule bonds_kept_check)
  done

lemma EulerOpenCLOptimised_runtime_bonds: "bonds_kept s (EulerOpenCLOptimised_runtime P s)"
  unfolding EulerOpenCLOptimised_runtime_def
  apply (rule Let_inv [where I = "bonds_kept s"])
   apply (rule bonds_kept_upd [OF bonds_kept_refl]; (simp; fail))
  apply (rule Let_inv [where I = "bonds_kept s"],
      (erule bonds_kept_force | (erule bonds_kept_upd; (simp; fail))), erule thin_rl)+
  apply (erule bonds_kept_upd; (simp; fail))
  done

lemma VelocityVerletOpenCL_runtime_bonds: "bonds_kept s (VelocityVerletOpenCL_runtime P s)"
  unfolding VelocityVerletOpenCL_runtime_def
  apply (rule Let_inv [where I = "bonds_kept s"])
   apply (rule bonds_kept_upd [OF bonds_kept_refl]; (simp; fail))
  apply (rule Let_inv [where I = "bonds_kept s"],
      (erule bonds_kept_upd; (simp; fail)), erule thin_rl)+
  apply (erule bonds_kept_check)
  done

lemma RK4_runtime_bonds: "bonds_kept s (RK4_runtime P s)"
  unfolding RK4_runtime_def
  apply (rule Let_inv [where I = "bonds_kept s"])
   apply (rule bonds_kept_upd [OF bonds_kept_refl]; (simp; fail))
  apply (rule Let_inv [where I = "bonds_kept s"],
      (erule bonds_kept_upd; (simp; fail)), erule thin_rl)+
  apply (erule bonds_kept_check)
  done

lemma RK4Optimised_runtime_bonds: "bonds_kept s (RK4Optimised_runtime P s)"
  unfolding RK4Optimised_runtime_def
  apply (rule Let_inv [where I = "bonds_kept s"])
   apply (rule bonds_kept_force [OF bonds_kept_refl])
  apply (rule Let_inv [where I = "bonds_kept s"],
      (erule bonds_kept_force | (erule bonds_kept_upd; (simp; fail))), erule thin_rl)+
  apply (erule bonds_kept_upd; (simp; fail))
  done

lemma EulerOpenCLOptimisedLumped_runtime_bonds:
  "bonds_kept s (EulerOpenCLOptimisedLumped_runtime P s)"
  unfolding EulerOpenCLOptimisedLumped_runtime_def
  apply (rule Let_inv [where I = "bonds_kept s"])
   apply (rule bonds_kept_force [OF bonds_kept_refl])
  apply (erule bonds_kept_upd; (simp; fail))
  done

lemma EulerStochastic_runtime_bonds: "bonds_kept s (EulerStochastic_runtime P step s)"
  unfolding EulerStochastic_runtime_def
  apply (rule Let_inv [where I = "bonds_kept s"])
   apply (rule bonds_kept_upd [OF bonds_kept_refl]; (simp; fail))
  apply (rule Let_inv [where I = "bonds_kept s"],
      (erule bonds_kept_force | (erule bonds_kept_upd; (simp; fail))), erule thin_rl)+
  apply (erule bonds_kept_upd; (simp; fail))
  done

lemma commit_of_bonds: "bonds_kept t (commit_of P c t)"
  by (cases c)
    (simp_all add: DormandPrince_commit_def HeunEuler_commit_def Let_def bonds_kept_def
      still_broken_refl still_broken_CheckBonds)

lemma adaptive_runtime_bonds:
  assumes "adaptive c"
  shows "bonds_kept s (runtime_of P c n s)"
proof -
  from adapt_time_step_of_decision [OF assms, of P s] obtain s2 where
    dec: "adapt_time_step_of P c (stages_of P c s) = adapt_decision s2" and
    hz: "d_horizons s2 = d_horizons (stages_of P c s)" and
    hh: "h_horizons s2 = h_horizons (stages_of P c s)"
    by blast
  have ad: "adapted P c s = fst (adapt_decision s2)"
    by (simp add: adapted_def dec)
  have "h_horizons (fst (adapt_decision s2)) = h_horizons s2"
    by (simp add: adapt_decision_def split: option.splits)
  then have a: "bonds_kept s (adapted P c s)"
    using stages_of_bonds [of s P c] hz hh
    by (simp add: bonds_kept_def ad adapt_decision_horizons)
  show ?thesis
    using runtime_of_adaptive [OF assms, of P n s] a
      bonds_kept_trans [OF a commit_of_bonds [of "adapted P c s" P c]]
    by simp
qed

lemma runtime_of_bonds: "bonds_kept s (runtime_of P c n s)"
proof (cases "adaptive c")
  case True
  then show ?thesis by (rule adaptive_runtime_bonds)
next
  case False
  then show ?thesis
    by (cases c)
      (simp_all add: EulerCromer_runtime_bonds EulerCromerOptimised_runtime_bonds
        EulerOpenCL_runtime_bonds EulerOpenCLOptimised_runtime_bonds
        VelocityVerletOpenCL_runtime_bonds RK4_runtime_bonds RK4Optimised_runtime_bonds
        EulerOpenCLOptimisedLumped_runtime_bonds EulerStochastic_runtime_bonds)
qed

lemma after_Inr:
  "after r = Inr s' \<Longrightarrow> \<exists>x. r = Inr (s', x)"
  by (auto simp: after_def split: sum.splits)

lemma write_frames:
  "EulerCromer_write P m s = Inr (s', x) \<Longrightarrow> d_horizons s' = d_horizons s \<and> h_horizons s' = h_horizons s"
  "EulerOpenCL_write P m s = Inr (s', x) \<Longrightarrow> d_horizons s' = d_horizons s \<and> h_horizons s' = h_horizons s"
  "EulerOpenCLOptimised_write P m s = Inr (s', x) \<Longrightarrow> d_horizons s' = d_horizons s \<and> h_horizons s' = h_horizons s"
  "RK4_write P m s = Inr (s', x) \<Longrightarrow> d_horizons s' = d_horizons s \<and> h_horizons s' = h_horizons s"
  "DormandPrince_write P m s = Inr (s', x) \<Longrightarrow> d_horizons s' = d_horizons s \<and> h_horizons s' = h_horizons s"
  "HeunEuler_write P m s = Inr (s', x) \<Longrightarrow> d_horizons s' = d_horizons s \<and> h_horizons s' = h_horizons s"
  "VelocityVerletOpenCL_write P m s = Inr (s', y) \<Longrightarrow> d_horizons s' = d_horizons s \<and> h_horizons s' = h_horizons s"
  by (auto simp: EulerCromer_write_def EulerOpenCL_write_def EulerOpenCLOptimised_write_def
      RK4_write_def DormandPrince_write_def HeunEuler_write_def VelocityVerletOpenCL_write_def
      Let_def split: sum.splits prod.splits)

lemma write_of_bonds:
  assumes "write_of P m c s = Inr s'"
  shows "bonds_kept s s'"
proof -
  have "d_horizons s' = d_horizons s \<and> h_horizons s' = h_horizons s"
  proof (cases c)
    case EulerStochastic
    then show ?thesis
      using assms by (auto simp: EulerStochastic_write_def Let_def)
  qed (use assms in \<open>auto dest!: after_Inr write_frames
        simp: EulerCromerOptimised_write_def EulerOpenCLOptimisedLumped_write_def
          RK4Optimised_write_def DormandPrinceOptimised_write_def HeunEulerOptimised_write_def\<close>)
  then show ?thesis by (simp add: bonds_kept_def still_broken_refl)
qed

lemma apply_operation_bonds:
  assumes "apply_operation P m c op s = Inr s'" and "\<not> is_reset op"
  shows "bonds_kept s s'"
proof (cases op)
  case (Runtime step)
  then show ?thesis using assms runtime_of_bonds [of s P c step] by auto
next
  case Write
  then show ?thesis using assms write_of_bonds by auto
next
  case (IncrementLoad load_scale)
  then show ?thesis
    using assms
    by (auto simp: incrementLoad_def bonds_kept_def still_broken_refl split: if_splits)
next
  case (Reset pn)
  then show ?thesis using assms by simp
qed

lemma run_bonds:
  assumes "run P m c ops s = Inr s'" and "\<forall>op\<in>set ops. \<not> is_reset op"
  shows "bonds_kept s s'"
  using assms
proof (induction ops arbitrary: s)
  case Nil
  then show ?case by (simp add: bonds_kept_refl)
next
  case (Cons op ops)
  from Cons.prems(1) obtain s1 where
    one: "apply_operation P m c op s = Inr s1" and rest: "run P m c ops s1 = Inr s'"
    by (auto split: sum.splits)
  have "bonds_kept s s1" using apply_operation_bonds [OF one] Cons.prems(2) by simp
  moreover have "bonds_kept s1 s'" using Cons.IH [OF rest] Cons.prems(2) by simp
  ultimately show ?case by (rule bonds_kept_trans)
qed

lemma EulerStochastic_reset_horizons:
  "d_horizons (EulerStochastic_reset m pn s) = h_horizons s"
  "h_horizons (EulerStochastic_reset m pn s) = h_horizons s"
  by (simp_all add: EulerStochastic_reset_def Let_def)

text \<open>
  C1, as the code has it, the kernels being modelled from the spec. Over any sequence of
  calls of \<open>runtime\<close>, \<open>write\<close> and \<open>incrementLoad\<close> on one integrator object, of any of the
  thirteen OpenCL classes, a bond that is broken stays broken: if the run from \<open>s\<close>
  reaches \<open>s1\<close> and goes on, without a reset, to \<open>s2\<close>, every bond broken in \<open>s1\<close> is broken
  in \<open>s2\<close>. \<open>EulerStochastic.reset\<close> is the exception: it builds the device adjacency anew
  from the host adjacency, which no method writes, and so makes active again every bond
  that has broken since \<open>__init__\<close>.
\<close>

theorem broken_bonds_stay_broken:
  "(run P m c ops1 s = Inr s1 \<and> run P m c ops2 s1 = Inr s2 \<and>
    (\<forall>op\<in>set ops2. \<not> is_reset op) \<and> broken (d_horizons s1) i k \<longrightarrow>
      broken (d_horizons s2) i k) \<and>
   d_horizons (EulerStochastic_reset m pn s) = h_horizons s \<and>
   h_horizons (EulerStochastic_reset m pn s) = h_horizons s \<and>
   (run P m c ops1 s = Inr s1 \<and> (\<forall>op\<in>set ops1. \<not> is_reset op) \<longrightarrow>
      h_horizons s1 = h_horizons s)"
proof (intro conjI impI)
  assume a: "run P m c ops1 s = Inr s1 \<and> run P m c ops2 s1 = Inr s2 \<and>
    (\<forall>op\<in>set ops2. \<not> is_reset op) \<and> broken (d_horizons s1) i k"
  then have "bonds_kept s1 s2" using run_bonds [of P m c ops2 s1 s2] by blast
  then show "broken (d_horizons s2) i k"
    using a still_broken_broken by (auto simp: bonds_kept_def)
next
  assume "run P m c ops1 s = Inr s1 \<and> (\<forall>op\<in>set ops1. \<not> is_reset op)"
  then have "bonds_kept s s1" using run_bonds [of P m c ops1 s s1] by blast
  then show "h_horizons s1 = h_horizons s" by (simp add: bonds_kept_def)
qed (simp_all add: EulerStochastic_reset_horizons)

lemma stochastic_example_reset:
  "d_un (EulerStochastic_reset two_nodes unit_noise stochastic_example) = zeros 2"
  "d_udn (EulerStochastic_reset two_nodes unit_noise stochastic_example) = zeros 2"
  "d_pn (EulerStochastic_reset two_nodes unit_noise stochastic_example) = unit_noise"
  "d_horizons (EulerStochastic_reset two_nodes unit_noise stochastic_example) = [[1], [0]]"
  "h_horizons (EulerStochastic_reset two_nodes unit_noise stochastic_example) = [[1], [0]]"
  "d_coords (EulerStochastic_reset two_nodes unit_noise stochastic_example) = [(0, 0, 0), (1, 0, 0)]"
  "d_bond_critical_stretch (EulerStochastic_reset two_nodes unit_noise stochastic_example) =
     (\<lambda>i k. 1 / 2)"
  by (simp_all add: EulerStochastic_reset_def Let_def stochastic_example_def init_buffers_def
      two_nodes_def zero_memory_def)

lemma stochastic_example_step:
  "d_horizons (EulerStochastic_runtime stochastic_program 0
     (EulerStochastic_reset two_nodes unit_noise stochastic_example)) = [[- 1], [- 1]]"
proof -
  have un: "kernel_of stochastic_program ''UpdateDisplacement'' []
      (zeros 2 # zeros 2 # unit_noise) [real 0] = [(0, 0, 0), (1, 0, 0)]"
    by (simp add: stochastic_program_def stochastic_kernels_def unit_noise_def zeros_def
        add3_def vx_def vy_def vz_def numeral_2_eq_2)
  show ?thesis
    by (simp add: EulerStochastic_runtime_def Let_def CalcBondForce_optimised_def
        stochastic_example_reset un two_node_bonds_stretched del: of_nat_0)
qed

theorem broken_bonds_stay_broken_witness:
  "\<exists>s1 s2.
     run stochastic_program two_nodes EulerStochastic [Reset unit_noise, Runtime 0]
       stochastic_example = Inr s1 \<and>
     run stochastic_program two_nodes EulerStochastic [Runtime 0, Write, Runtime 0] s1 = Inr s2 \<and>
     broken (d_horizons s1) 0 0 \<and> broken (d_horizons s2) 0 0"
proof -
  let ?s1 = "EulerStochastic_runtime stochastic_program 0
     (EulerStochastic_reset two_nodes unit_noise stochastic_example)"
  let ?s2 = "EulerStochastic_runtime stochastic_program 0
     (fst (EulerStochastic_write stochastic_program two_nodes
        (EulerStochastic_runtime stochastic_program 0 ?s1)))"
  have r1: "run stochastic_program two_nodes EulerStochastic [Reset unit_noise, Runtime 0]
              stochastic_example = Inr ?s1"
    by simp
  have r2: "run stochastic_program two_nodes EulerStochastic [Runtime 0, Write, Runtime 0] ?s1 =
              Inr ?s2"
    by simp
  have nr: "\<forall>op\<in>set [Runtime 0, Write, Runtime 0]. \<not> is_reset op" by simp
  have b1: "broken (d_horizons ?s1) 0 0"
    by (simp add: stochastic_example_step broken_def)
  from broken_bonds_stay_broken
    [of stochastic_program two_nodes EulerStochastic "[Reset unit_noise, Runtime 0]"
      stochastic_example ?s1 "[Runtime 0, Write, Runtime 0]" ?s2 0 0] r1 r2 nr b1
  have "broken (d_horizons ?s2) 0 0" by blast
  with r1 r2 b1 show ?thesis by blast
qed

text \<open>
  The claim as stated fails for \<open>reset\<close>: on the two-node object the first step of
  EulerStochastic breaks the bond of node 0, and the reset that follows makes it active
  again.
\<close>

theorem reset_reactivates_bond_counterexample:
  "\<exists>s1 s2.
     run stochastic_program two_nodes EulerStochastic [Reset unit_noise, Runtime 0]
       stochastic_example = Inr s1 \<and>
     broken (d_horizons s1) 0 0 \<and>
     run stochastic_program two_nodes EulerStochastic [Reset unit_noise] s1 = Inr s2 \<and>
     \<not> broken (d_horizons s2) 0 0"
proof -
  let ?s0 = "EulerStochastic_reset two_nodes unit_noise stochastic_example"
  let ?s1 = "EulerStochastic_runtime stochastic_program 0 ?s0"
  let ?s2 = "EulerStochastic_reset two_nodes unit_noise ?s1"
  have r1: "run stochastic_program two_nodes EulerStochastic [Reset unit_noise, Runtime 0]
              stochastic_example = Inr ?s1"
    by simp
  have r2: "run stochastic_program two_nodes EulerStochastic [Reset unit_noise] ?s1 = Inr ?s2"
    by simp
  have b1: "broken (d_horizons ?s1) 0 0"
    by (simp add: stochastic_example_step broken_def)
  have "bonds_kept ?s0 ?s1" by (rule EulerStochastic_runtime_bonds)
  then have "h_horizons ?s1 = [[1], [0]]"
    by (simp add: bonds_kept_def stochastic_example_reset)
  then have "d_horizons ?s2 = [[1], [0]]"
    by (simp add: EulerStochastic_reset_horizons)
  then have b2: "\<not> broken (d_horizons ?s2) 0 0"
    by (simp add: broken_def)
  from r1 b1 r2 b2 show ?thesis by blast
qed

end
